theory Spec2Isabelle
  imports Complex_Main "HOL-Library.Multiset"
begin

section \<open>Numbers\<close>

text \<open>
  The program computes with JavaScript numbers. They are modelled as exact reals: the
  results below are about the formulas the code evaluates, not about rounding, overflow
  or NaN. The one place where the code produces a non-finite value on purpose
  (\<open>maxProfit: Infinity\<close>) has a type of its own.
\<close>

datatype number = Num real | Infinity

section \<open>types/options.ts\<close>

datatype OptionType = call | put

text \<open>
  \<open>strategyType\<close> is declared as \<open>'covered-call' | 'cash-secured-put'\<close>; the mock-data
  service also produces \<open>'speculative'\<close> and casts it to the declared type.
\<close>

datatype StrategyType = covered_call | cash_secured_put | speculative

record RawOptionData =
  contractSymbol :: string
  strike :: real
  expiration :: string
  optionType :: OptionType
  lastPrice :: real
  bid :: real
  ask :: real
  volume :: real
  openInterest :: real
  impliedVolatility :: real

record MarketData =
  symbol :: string
  price :: real
  options :: "RawOptionData list"

record OptionData =
  symbol :: string
  ticker :: string
  strike :: real
  expiration :: string
  optionType :: OptionType
  lastPrice :: real
  bid :: real
  ask :: real
  volume :: real
  openInterest :: real
  stockPrice :: real
  timeToExpiration :: real
  riskFreeRate :: real
  impliedVolatility :: real
  theoreticalPrice :: real
  edge :: real
  delta :: real
  gamma :: real
  theta :: real
  vega :: real
  rho :: real
  moneyness :: real
  bidAskSpread :: real
  bidAskSpreadPercent :: real
  strategyType :: StrategyType
  breakevenPrice :: real
  maxProfit :: number
  collateralRequired :: real
  annualizedReturn :: real
  assignmentProbability :: real
  d1 :: real
  d2 :: real
  nd1 :: real
  nd2 :: real
  priceSource :: string
  dataAge :: real
  hasLiquidityWarning :: bool
  hasSpreadWarning :: bool
  hasStaleDataWarning :: bool

text \<open>
  The progress callback acts on the caller's world, of type \<open>'cb\<close>: a call
  \<open>onProgress(current, total, symbol)\<close> maps the world before the call to the world after.
\<close>

record 'cb SearchOptions =
  onProgress :: "(nat \<Rightarrow> nat \<Rightarrow> string \<Rightarrow> 'cb \<Rightarrow> 'cb) option"
  minEdge :: real
  minVolume :: real
  minPrice :: real

section \<open>utils/blackScholes.ts\<close>

subsection \<open>normalCDF\<close>

definition normalCDF :: "real \<Rightarrow> real" where
  "normalCDF x0 =
     (let a1 = 0.254829592;
          a2 = - 0.284496736;
          a3 = 1.421413741;
          a4 = - 1.453152027;
          a5 = 1.061405429;
          p = 0.3275911;
          sign = (if x0 < 0 then - 1 else 1);
          x = \<bar>x0\<bar> / sqrt 2.0;
          t = 1.0 / (1.0 + p * x);
          y = 1.0 - (((((a5 * t + a4) * t) + a3) * t + a2) * t + a1) * t * exp (- x * x)
      in 0.5 * (1.0 + sign * y))"

subsection \<open>blackScholes\<close>

record BlackScholesResult =
  callPrice :: real
  putPrice :: real
  d1 :: real
  d2 :: real
  nd1 :: real
  nd2 :: real
  nMinusD1 :: real
  nMinusD2 :: real

definition blackScholes :: "real \<Rightarrow> real \<Rightarrow> real \<Rightarrow> real \<Rightarrow> real \<Rightarrow> BlackScholesResult" where
  "blackScholes S K T r sigma =
     (if T \<le> 0 then
        \<lparr> callPrice = max (S - K) 0,
          putPrice = max (K - S) 0,
          d1 = 0,
          d2 = 0,
          nd1 = (if S > K then 1 else 0),
          nd2 = (if S > K then 1 else 0),
          nMinusD1 = (if S > K then 0 else 1),
          nMinusD2 = (if S > K then 0 else 1) \<rparr>
      else
        (let sqrtT = sqrt T;
             d1 = (ln (S / K) + (r + 0.5 * sigma * sigma) * T) / (sigma * sqrtT);
             d2 = d1 - sigma * sqrtT;
             nd1 = normalCDF d1;
             nd2 = normalCDF d2;
             nMinusD1 = normalCDF (- d1);
             nMinusD2 = normalCDF (- d2);
             callPrice = S * nd1 - K * exp (- r * T) * nd2;
             putPrice = K * exp (- r * T) * nMinusD2 - S * nMinusD1
         in \<lparr> callPrice = callPrice,
              putPrice = putPrice,
              d1 = d1,
              d2 = d2,
              nd1 = nd1,
              nd2 = nd2,
              nMinusD1 = nMinusD1,
              nMinusD2 = nMinusD2 \<rparr>))"

subsection \<open>calculateGreeks\<close>

record Greeks =
  delta :: real
  gamma :: real
  theta :: real
  vega :: real
  rho :: real

definition phi :: "real \<Rightarrow> real" where
  "phi x = exp (- 0.5 * x * x) / sqrt (2 * pi)"

definition calculateGreeks :: "real \<Rightarrow> real \<Rightarrow> real \<Rightarrow> real \<Rightarrow> real \<Rightarrow> OptionType \<Rightarrow> Greeks" where
  "calculateGreeks S K T r sigma optionType' =
     (if T \<le> 0 then
        \<lparr> delta = 0, gamma = 0, theta = 0, vega = 0, rho = 0 \<rparr>
      else
        (let sqrtT = sqrt T;
             d1 = (ln (S / K) + (r + 0.5 * sigma * sigma) * T) / (sigma * sqrtT);
             d2 = d1 - sigma * sqrtT;
             nd1 = normalCDF d1;
             nd2 = normalCDF d2;
             nMinusD1 = normalCDF (- d1);
             nMinusD2 = normalCDF (- d2);
             phiD1 = phi d1;
             delta = (if optionType' = call then nd1 else - nMinusD1);
             rho = (if optionType' = call
                    then K * T * exp (- r * T) * nd2 / 100
                    else - K * T * exp (- r * T) * nMinusD2 / 100);
             gamma = phiD1 / (S * sigma * sqrtT);
             theta = (- S * phiD1 * sigma / (2 * sqrtT)
                      - r * K * exp (- r * T) * (if optionType' = call then nd2 else nMinusD2))
                     / 365;
             vega = S * phiD1 * sqrtT / 100
         in \<lparr> delta = delta, gamma = gamma, theta = theta, vega = vega, rho = rho \<rparr>))"

subsection \<open>Derived metrics\<close>

definition calculateEdge :: "real \<Rightarrow> real \<Rightarrow> real" where
  "calculateEdge marketPrice theoreticalPrice' =
     (if theoreticalPrice' = 0 then 0
      else ((marketPrice - theoreticalPrice') / theoreticalPrice') * 100)"

text \<open>
  calculateTimeToExpiration reads two things from the JavaScript runtime: the instant a
  date string denotes (\<open>new Date(s).getTime()\<close>, here \<open>dateParse s\<close>) and the current
  instant (\<open>new Date().getTime()\<close>, here \<open>now\<close>), both in milliseconds.
\<close>

definition calculateTimeToExpiration :: "(string \<Rightarrow> real) \<Rightarrow> real \<Rightarrow> string \<Rightarrow> real" where
  "calculateTimeToExpiration dateParse now expirationDate =
     (let expiry = dateParse (expirationDate @ ''T16:00:00-05:00'');
          diffMs = expiry - now;
          diffDays = diffMs / (1000 * 60 * 60 * 24)
      in max 0 (diffDays / 365.25))"

definition calculateMoneyness :: "real \<Rightarrow> real \<Rightarrow> real" where
  "calculateMoneyness stockPrice' strike' = ((strike' - stockPrice') / stockPrice') * 100"

definition calculateSpreadPercent :: "real \<Rightarrow> real \<Rightarrow> real" where
  "calculateSpreadPercent bid' ask' =
     (if bid' = 0 \<or> ask' = 0 then 0
      else (let mid = (bid' + ask') / 2 in ((ask' - bid') / mid) * 100))"

definition hasLiquidityWarning :: "real \<Rightarrow> real \<Rightarrow> bool" where
  "hasLiquidityWarning volume' openInterest' = (volume' < 1 \<or> openInterest' < 10)"

definition hasSpreadWarning :: "real \<Rightarrow> bool" where
  "hasSpreadWarning spreadPercent = (spreadPercent > 10)"

definition calculateAssignmentProbability :: "real \<Rightarrow> OptionType \<Rightarrow> real" where
  "calculateAssignmentProbability delta' optionType' =
     (if optionType' = call then \<bar>delta'\<bar> * 100 else \<bar>delta'\<bar> * 100)"

section \<open>The runtime\<close>

text \<open>
  What the services read from their environment while they run. Each call of
  processOptionData reads the clock once and, in the fetch-based service, draws one
  random number; \<open>nowAt k\<close> and \<open>randomAt k\<close> are the values read by the \<open>k\<close>-th
  call (counting from 0). \<open>fetchAt i symbol\<close> is the outcome of the request made for
  \<open>symbols[i]\<close>: \<open>None\<close> when anything in the \<open>try\<close> block throws (the request fails,
  the response is not ok, the body is not the expected JSON), otherwise the array the
  body parses to. The artificial delays between symbols only take time and are not
  modelled.
\<close>

record Runtime =
  dateParse :: "string \<Rightarrow> real"
  nowAt :: "nat \<Rightarrow> real"
  randomAt :: "nat \<Rightarrow> real"
  fetchAt :: "nat \<Rightarrow> string \<Rightarrow> MarketData list option"

text \<open>
  Reading \<open>obj[key]\<close> from an object literal finds the literal's own entries and, for
  any other key, what every object inherits from \<open>Object.prototype\<close>. The inherited
  values are functions (and, for \<open>__proto__\<close>, the prototype object itself): all of them
  are truthy and none has a property \<open>options\<close>.
\<close>

datatype 'a property = Undefined | Inherited | Own 'a

definition Object_prototype_keys :: "string list" where
  "Object_prototype_keys =
     [''constructor'', ''hasOwnProperty'', ''isPrototypeOf'', ''propertyIsEnumerable'',
      ''toLocaleString'', ''toString'', ''valueOf'', ''__proto__'',
      ''__defineGetter__'', ''__defineSetter__'', ''__lookupGetter__'', ''__lookupSetter__'']"

definition getProperty :: "(string \<Rightarrow> 'a option) \<Rightarrow> string \<Rightarrow> 'a property" where
  "getProperty obj key =
     (case obj key of
        Some v \<Rightarrow> Own v
      | None \<Rightarrow> if key \<in> set Object_prototype_keys then Inherited else Undefined)"

datatype error = TypeError

section \<open>services/optionsService.ts\<close>

text \<open>
  The repository holds two versions of this module. The first serves the search from a
  table of mock data compiled into the module (suffix \<open>_mock\<close> below); the second asks
  the \<open>/api/options\<close> endpoint for each symbol (suffix \<open>_fetch\<close>). Both export
  searchOptionsData.
\<close>

definition RISK_FREE_RATE :: real where
  "RISK_FREE_RATE = 0.045"

text \<open>
  The state of the search loop: the accumulated array \<open>allOpportunities\<close>, the number
  of processOptionData calls made so far, and the world the progress callback acts on.
\<close>

record 'cb SearchState =
  allOpportunities :: "OptionData list"
  analyzed :: nat
  listener :: 'cb

definition callOnProgress :: "'cb SearchOptions \<Rightarrow> nat \<Rightarrow> nat \<Rightarrow> string \<Rightarrow> 'cb \<Rightarrow> 'cb" where
  "callOnProgress options' i n label w =
     (case onProgress options' of None \<Rightarrow> w | Some f \<Rightarrow> f i n label w)"

subsection \<open>The mock-data version\<close>

definition getStrategyType :: "OptionType \<Rightarrow> real \<Rightarrow> StrategyType" where
  "getStrategyType optionType' moneyness' =
     (if optionType' = call \<and> moneyness' < 0 then covered_call
      else if optionType' = put \<and> moneyness' > 0 then cash_secured_put
      else speculative)"

definition calculateAnnualReturn :: "real \<Rightarrow> real \<Rightarrow> real" where
  "calculateAnnualReturn edge' timeToExpiration' =
     (if timeToExpiration' \<le> 0 then 0
      else (edge' / 100) * (365 / (timeToExpiration' * 365)))"

definition AAPL240816C00180000 :: RawOptionData where
  "AAPL240816C00180000 =
     \<lparr> contractSymbol = ''AAPL240816C00180000'', RawOptionData.strike = 180,
       RawOptionData.expiration = ''2025-08-16'', RawOptionData.optionType = call,
       RawOptionData.lastPrice = 8.45, RawOptionData.bid = 8.20, RawOptionData.ask = 8.70,
       RawOptionData.volume = 1250, RawOptionData.openInterest = 5420,
       RawOptionData.impliedVolatility = 0.28 \<rparr>"

definition AAPL240816P00190000 :: RawOptionData where
  "AAPL240816P00190000 =
     \<lparr> contractSymbol = ''AAPL240816P00190000'', RawOptionData.strike = 190,
       RawOptionData.expiration = ''2025-08-16'', RawOptionData.optionType = put,
       RawOptionData.lastPrice = 6.25, RawOptionData.bid = 6.00, RawOptionData.ask = 6.50,
       RawOptionData.volume = 890, RawOptionData.openInterest = 3210,
       RawOptionData.impliedVolatility = 0.30 \<rparr>"

definition MSFT240816C00410000 :: RawOptionData where
  "MSFT240816C00410000 =
     \<lparr> contractSymbol = ''MSFT240816C00410000'', RawOptionData.strike = 410,
       RawOptionData.expiration = ''2025-08-16'', RawOptionData.optionType = call,
       RawOptionData.lastPrice = 12.35, RawOptionData.bid = 12.00, RawOptionData.ask = 12.70,
       RawOptionData.volume = 750, RawOptionData.openInterest = 2890,
       RawOptionData.impliedVolatility = 0.25 \<rparr>"

definition NVDA240816C00115000 :: RawOptionData where
  "NVDA240816C00115000 =
     \<lparr> contractSymbol = ''NVDA240816C00115000'', RawOptionData.strike = 115,
       RawOptionData.expiration = ''2025-08-16'', RawOptionData.optionType = call,
       RawOptionData.lastPrice = 6.80, RawOptionData.bid = 6.60, RawOptionData.ask = 7.00,
       RawOptionData.volume = 2100, RawOptionData.openInterest = 8750,
       RawOptionData.impliedVolatility = 0.35 \<rparr>"

text \<open>The own entries of the table \<open>MOCK_OPTIONS_DATA\<close>.\<close>

definition MOCK_OPTIONS_DATA :: "string \<Rightarrow> MarketData option" where
  "MOCK_OPTIONS_DATA =
     [''AAPL'' \<mapsto> \<lparr> MarketData.symbol = ''AAPL'', price = 185.50,
                     options = [AAPL240816C00180000, AAPL240816P00190000] \<rparr>,
      ''MSFT'' \<mapsto> \<lparr> MarketData.symbol = ''MSFT'', price = 415.20,
                     options = [MSFT240816C00410000] \<rparr>,
      ''NVDA'' \<mapsto> \<lparr> MarketData.symbol = ''NVDA'', price = 118.75,
                     options = [NVDA240816C00115000] \<rparr>]"

text \<open>
  A record is written with its fields in the order of their declaration in
  \<open>types/options.ts\<close>; the object literals of the source list them in another order.
\<close>

definition processOptionData_mock ::
  "(string \<Rightarrow> real) \<Rightarrow> real \<Rightarrow> RawOptionData \<Rightarrow> real \<Rightarrow> string \<Rightarrow> OptionData" where
  "processOptionData_mock parse now rawOption stockPrice' symbol' =
     (let timeToExpiration =
            calculateTimeToExpiration parse now (RawOptionData.expiration rawOption);
          moneyness = calculateMoneyness stockPrice' (RawOptionData.strike rawOption);
          bsResult = blackScholes stockPrice' (RawOptionData.strike rawOption) timeToExpiration
                       RISK_FREE_RATE (RawOptionData.impliedVolatility rawOption);
          theoreticalPrice = (if RawOptionData.optionType rawOption = call
                              then callPrice bsResult else putPrice bsResult);
          greeks = calculateGreeks stockPrice' (RawOptionData.strike rawOption) timeToExpiration
                     RISK_FREE_RATE (RawOptionData.impliedVolatility rawOption)
                     (RawOptionData.optionType rawOption);
          edge = calculateEdge (RawOptionData.lastPrice rawOption) theoreticalPrice;
          spreadPercent =
            calculateSpreadPercent (RawOptionData.bid rawOption) (RawOptionData.ask rawOption);
          assignmentProbability =
            calculateAssignmentProbability (Greeks.delta greeks)
              (RawOptionData.optionType rawOption);
          strategyType = getStrategyType (RawOptionData.optionType rawOption) moneyness;
          annualReturn = calculateAnnualReturn edge timeToExpiration
      in \<lparr> OptionData.symbol = symbol',
           OptionData.ticker = contractSymbol rawOption,
           OptionData.strike = RawOptionData.strike rawOption,
           OptionData.expiration = RawOptionData.expiration rawOption,
           OptionData.optionType = RawOptionData.optionType rawOption,
           OptionData.lastPrice = RawOptionData.lastPrice rawOption,
           OptionData.bid = RawOptionData.bid rawOption,
           OptionData.ask = RawOptionData.ask rawOption,
           OptionData.volume = RawOptionData.volume rawOption,
           OptionData.openInterest = RawOptionData.openInterest rawOption,
           OptionData.stockPrice = stockPrice',
           OptionData.timeToExpiration = timeToExpiration,
           OptionData.riskFreeRate = RISK_FREE_RATE,
           OptionData.impliedVolatility = RawOptionData.impliedVolatility rawOption,
           OptionData.theoreticalPrice = theoreticalPrice,
           OptionData.edge = edge,
           OptionData.delta = Greeks.delta greeks,
           OptionData.gamma = Greeks.gamma greeks,
           OptionData.theta = Greeks.theta greeks,
           OptionData.vega = Greeks.vega greeks,
           OptionData.rho = Greeks.rho greeks,
           OptionData.moneyness = moneyness,
           OptionData.bidAskSpread = RawOptionData.ask rawOption - RawOptionData.bid rawOption,
           OptionData.bidAskSpreadPercent = spreadPercent,
           OptionData.strategyType = strategyType,
           OptionData.breakevenPrice =
             (if RawOptionData.optionType rawOption = call
              then RawOptionData.strike rawOption + RawOptionData.lastPrice rawOption
              else RawOptionData.strike rawOption - RawOptionData.lastPrice rawOption),
           OptionData.maxProfit =
             (if RawOptionData.optionType rawOption = call then Infinity
              else Num (RawOptionData.strike rawOption - RawOptionData.lastPrice rawOption)),
           OptionData.collateralRequired =
             (if RawOptionData.optionType rawOption = call then stockPrice' * 100
              else RawOptionData.strike rawOption * 100),
           OptionData.annualizedReturn = annualReturn,
           OptionData.assignmentProbability = assignmentProbability,
           OptionData.d1 = BlackScholesResult.d1 bsResult,
           OptionData.d2 = BlackScholesResult.d2 bsResult,
           OptionData.nd1 = BlackScholesResult.nd1 bsResult,
           OptionData.nd2 = BlackScholesResult.nd2 bsResult,
           OptionData.priceSource = ''last'',
           OptionData.dataAge = 0,
           OptionData.hasLiquidityWarning =
             hasLiquidityWarning (RawOptionData.volume rawOption)
               (RawOptionData.openInterest rawOption),
           OptionData.hasSpreadWarning = hasSpreadWarning spreadPercent,
           OptionData.hasStaleDataWarning = False \<rparr>)"

text \<open>
  One iteration of the \<open>for\<close> loop of searchOptionsData. The lookup
  \<open>MOCK_OPTIONS_DATA[symbol]\<close> is undefined for an unknown symbol, which is skipped;
  for an inherited key it is a truthy value whose \<open>options\<close> is undefined, and
  \<open>symbolData.options.map\<close> throws a TypeError, which nothing catches.
\<close>

definition searchStep_mock ::
  "Runtime \<Rightarrow> 'cb SearchOptions \<Rightarrow> string list \<Rightarrow> nat \<Rightarrow> 'cb SearchState
     \<Rightarrow> error option \<times> 'cb SearchState" where
  "searchStep_mock rt options' symbols i st =
     (let symbol' = symbols ! i;
          st1 = st\<lparr>listener :=
                      callOnProgress options' i (length symbols) symbol' (listener st)\<rparr>
      in case getProperty MOCK_OPTIONS_DATA symbol' of
           Undefined \<Rightarrow> (None, st1)
         | Inherited \<Rightarrow> (Some TypeError, st1)
         | Own symbolData \<Rightarrow>
             (let symbolOptions =
                    map (\<lambda>(k, option).
                           processOptionData_mock (dateParse rt) (nowAt rt k) option
                             (price symbolData) (MarketData.symbol symbolData))
                      (enumerate (analyzed st1) (options symbolData));
                  filteredOptions =
                    filter (\<lambda>option.
                              OptionData.edge option \<ge> minEdge options'
                              \<and> OptionData.volume option \<ge> minVolume options'
                              \<and> OptionData.lastPrice option \<ge> minPrice options')
                      symbolOptions
              in (None,
                  st1\<lparr>allOpportunities := allOpportunities st1 @ filteredOptions,
                       analyzed := analyzed st1 + length (options symbolData)\<rparr>)))"

function searchLoop_mock ::
  "Runtime \<Rightarrow> 'cb SearchOptions \<Rightarrow> string list \<Rightarrow> nat \<Rightarrow> 'cb SearchState
     \<Rightarrow> error option \<times> 'cb SearchState" where
  "searchLoop_mock rt options' symbols i st =
     (if i < length symbols then
        (case searchStep_mock rt options' symbols i st of
           (Some e, st') \<Rightarrow> (Some e, st')
         | (None, st') \<Rightarrow> searchLoop_mock rt options' symbols (i + 1) st')
      else (None, st))"
  by pat_completeness auto
termination
  by (relation "measure (\<lambda>(rt, options', symbols, i, st). length symbols - i)") auto

declare searchLoop_mock.simps [simp del]

text \<open>
  \<open>allOpportunities.sort((a, b) => b.edge - a.edge)\<close> is a stable sort by descending
  edge: \<open>sort_key\<close> on the negated edge. The result is the value the promise settles
  with (\<open>Inl\<close> when it rejects) and the world of the callback after the run. The three
  bounds are required fields of SearchOptions, so the defaults of the destructuring
  (5, 1 and 0.10) apply to no well-typed argument.
\<close>

definition searchOptionsData_mock ::
  "Runtime \<Rightarrow> string list \<Rightarrow> 'cb SearchOptions \<Rightarrow> 'cb \<Rightarrow> (error + OptionData list) \<times> 'cb" where
  "searchOptionsData_mock rt symbols options' w =
     (case searchLoop_mock rt options' symbols 0
             \<lparr>allOpportunities = [], analyzed = 0, listener = w\<rparr> of
        (Some e, st) \<Rightarrow> (Inl e, listener st)
      | (None, st) \<Rightarrow>
          (Inr (sort_key (\<lambda>a. - OptionData.edge a) (allOpportunities st)),
           callOnProgress options' (length symbols) (length symbols) '''' (listener st)))"

subsection \<open>The fetch-based version\<close>

definition processOptionData_fetch ::
  "(string \<Rightarrow> real) \<Rightarrow> real \<Rightarrow> real \<Rightarrow> RawOptionData \<Rightarrow> real \<Rightarrow> string \<Rightarrow> OptionData" where
  "processOptionData_fetch parse now rnd rawOption stockPrice' ticker' =
     (let timeToExpiration =
            calculateTimeToExpiration parse now (RawOptionData.expiration rawOption);
          bsResult = blackScholes stockPrice' (RawOptionData.strike rawOption) timeToExpiration
                       RISK_FREE_RATE (RawOptionData.impliedVolatility rawOption);
          theoreticalPrice = (if RawOptionData.optionType rawOption = call
                              then callPrice bsResult else putPrice bsResult);
          greeks = calculateGreeks stockPrice' (RawOptionData.strike rawOption) timeToExpiration
                     RISK_FREE_RATE (RawOptionData.impliedVolatility rawOption)
                     (RawOptionData.optionType rawOption);
          edge = calculateEdge (RawOptionData.lastPrice rawOption) theoreticalPrice;
          moneyness = calculateMoneyness stockPrice' (RawOptionData.strike rawOption);
          bidAskSpread = RawOptionData.ask rawOption - RawOptionData.bid rawOption;
          bidAskSpreadPercent =
            calculateSpreadPercent (RawOptionData.bid rawOption) (RawOptionData.ask rawOption);
          strategyType = (if RawOptionData.optionType rawOption = call
                          then covered_call else cash_secured_put);
          breakevenPrice =
            (if RawOptionData.optionType rawOption = call
             then RawOptionData.strike rawOption + RawOptionData.lastPrice rawOption
             else RawOptionData.strike rawOption - RawOptionData.lastPrice rawOption);
          maxProfit = RawOptionData.lastPrice rawOption * 100;
          collateralRequired =
            (if RawOptionData.optionType rawOption = call then stockPrice' * 100
             else RawOptionData.strike rawOption * 100);
          daysToExpiration = timeToExpiration * 365;
          annualizedReturn =
            (if daysToExpiration > 0
             then (maxProfit / collateralRequired) * (365 / daysToExpiration) * 100
             else 0);
          assignmentProbability =
            calculateAssignmentProbability (Greeks.delta greeks)
              (RawOptionData.optionType rawOption);
          hasLiquidityWarn =
            hasLiquidityWarning (RawOptionData.volume rawOption)
              (RawOptionData.openInterest rawOption);
          hasSpreadWarn = hasSpreadWarning bidAskSpreadPercent;
          dataAge = rnd * 5;
          hasStaleDataWarn = (dataAge > 15)
      in \<lparr> OptionData.symbol = contractSymbol rawOption,
           OptionData.ticker = ticker',
           OptionData.strike = RawOptionData.strike rawOption,
           OptionData.expiration = RawOptionData.expiration rawOption,
           OptionData.optionType = RawOptionData.optionType rawOption,
           OptionData.lastPrice = RawOptionData.lastPrice rawOption,
           OptionData.bid = RawOptionData.bid rawOption,
           OptionData.ask = RawOptionData.ask rawOption,
           OptionData.volume = RawOptionData.volume rawOption,
           OptionData.openInterest = RawOptionData.openInterest rawOption,
           OptionData.stockPrice = stockPrice',
           OptionData.timeToExpiration = timeToExpiration,
           OptionData.riskFreeRate = RISK_FREE_RATE,
           OptionData.impliedVolatility = RawOptionData.impliedVolatility rawOption,
           OptionData.theoreticalPrice = theoreticalPrice,
           OptionData.edge = edge,
           OptionData.delta = Greeks.delta greeks,
           OptionData.gamma = Greeks.gamma greeks,
           OptionData.theta = Greeks.theta greeks,
           OptionData.vega = Greeks.vega greeks,
           OptionData.rho = Greeks.rho greeks,
           OptionData.moneyness = moneyness,
           OptionData.bidAskSpread = bidAskSpread,
           OptionData.bidAskSpreadPercent = bidAskSpreadPercent,
           OptionData.strategyType = strategyType,
           OptionData.breakevenPrice = breakevenPrice,
           OptionData.maxProfit = Num maxProfit,
           OptionData.collateralRequired = collateralRequired,
           OptionData.annualizedReturn = annualizedReturn,
           OptionData.assignmentProbability = assignmentProbability,
           OptionData.d1 = BlackScholesResult.d1 bsResult,
           OptionData.d2 = BlackScholesResult.d2 bsResult,
           OptionData.nd1 = BlackScholesResult.nd1 bsResult,
           OptionData.nd2 = BlackScholesResult.nd2 bsResult,
           OptionData.priceSource = ''last'',
           OptionData.dataAge = dataAge,
           OptionData.hasLiquidityWarning = hasLiquidityWarn,
           OptionData.hasSpreadWarning = hasSpreadWarn,
           OptionData.hasStaleDataWarning = hasStaleDataWarn \<rparr>)"

text \<open>
  One iteration of the loop. Whatever is thrown inside the \<open>try\<close> block is caught and
  logged, and the loop goes on with the next symbol.
\<close>

definition searchStep_fetch ::
  "Runtime \<Rightarrow> 'cb SearchOptions \<Rightarrow> string list \<Rightarrow> nat \<Rightarrow> 'cb SearchState \<Rightarrow> 'cb SearchState" where
  "searchStep_fetch rt options' symbols i st =
     (let symbol' = symbols ! i;
          st1 = st\<lparr>listener :=
                      callOnProgress options' i (length symbols) symbol' (listener st)\<rparr>
      in case fetchAt rt i symbol' of
           None \<Rightarrow> st1
         | Some results \<Rightarrow>
             (if length results > 0 then
                (let symbolData = results ! 0;
                     symbolOptions =
                       map (\<lambda>(k, option).
                              processOptionData_fetch (dateParse rt) (nowAt rt k) (randomAt rt k)
                                option (price symbolData) (MarketData.symbol symbolData))
                         (enumerate (analyzed st1) (options symbolData));
                     filteredOptions =
                       filter (\<lambda>option.
                                 OptionData.edge option \<ge> minEdge options'
                                 \<and> OptionData.volume option \<ge> minVolume options'
                                 \<and> OptionData.lastPrice option \<ge> minPrice options')
                         symbolOptions
                 in st1\<lparr>allOpportunities := allOpportunities st1 @ filteredOptions,
                         analyzed := analyzed st1 + length (options symbolData)\<rparr>)
              else st1))"

function searchLoop_fetch ::
  "Runtime \<Rightarrow> 'cb SearchOptions \<Rightarrow> string list \<Rightarrow> nat \<Rightarrow> 'cb SearchState \<Rightarrow> 'cb SearchState" where
  "searchLoop_fetch rt options' symbols i st =
     (if i < length symbols then
        searchLoop_fetch rt options' symbols (i + 1) (searchStep_fetch rt options' symbols i st)
      else st)"
  by pat_completeness auto
termination
  by (relation "measure (\<lambda>(rt, options', symbols, i, st). length symbols - i)") auto

declare searchLoop_fetch.simps [simp del]

definition searchOptionsData_fetch ::
  "Runtime \<Rightarrow> string list \<Rightarrow> 'cb SearchOptions \<Rightarrow> 'cb \<Rightarrow> OptionData list \<times> 'cb" where
  "searchOptionsData_fetch rt symbols options' w =
     (let st = searchLoop_fetch rt options' symbols 0
                 \<lparr>allOpportunities = [], analyzed = 0, listener = w\<rparr>
      in (sort_key (\<lambda>a. - OptionData.edge a) (allOpportunities st),
          callOnProgress options' (length symbols) (length symbols) ''Complete'' (listener st)))"

section \<open>A recording listener and a sample environment\<close>

text \<open>
  To observe the calls of \<open>onProgress\<close>, the callback's world is the list of the calls
  made so far and the callback appends its arguments to it.
\<close>

definition recordCall ::
  "nat \<Rightarrow> nat \<Rightarrow> string \<Rightarrow> (nat \<times> nat \<times> string) list \<Rightarrow> (nat \<times> nat \<times> string) list" where
  "recordCall i n label calls = calls @ [(i, n, label)]"

text \<open>
  A runtime for concrete runs: every date string denotes 2025-08-16T16:00:00-05:00, the
  clock stands at 2026-11-03T00:00:00Z (after that expiry), every random draw is 0.5, and
  the endpoint answers for a symbol of the mock table with that symbol's data and fails
  for any other. The filter values are the defaults of the mock-data version.
\<close>

definition sampleRuntime :: Runtime where
  "sampleRuntime =
     \<lparr> dateParse = (\<lambda>s. 1755378000000),
       nowAt = (\<lambda>k. 1793664000000),
       randomAt = (\<lambda>k. 0.5),
       fetchAt = (\<lambda>i s. case MOCK_OPTIONS_DATA s of None \<Rightarrow> None | Some d \<Rightarrow> Some [d]) \<rparr>"

definition sampleOptions :: "(nat \<times> nat \<times> string) list SearchOptions" where
  "sampleOptions =
     \<lparr> onProgress = Some recordCall, minEdge = 5, minVolume = 1, minPrice = 0.10 \<rparr>"

text \<open>
  The contracts analysed by a run over \<open>symbols\<close>, in arrival order and before any
  filtering: for each symbol in input order that the data source resolves, one analysis
  per contract. \<open>k\<close> counts the analyses made before, \<open>i\<close> is the position of the
  first symbol of the list in the input.
\<close>

fun analyzedContracts_mock :: "Runtime \<Rightarrow> nat \<Rightarrow> string list \<Rightarrow> OptionData list" where
  "analyzedContracts_mock rt k [] = []"
| "analyzedContracts_mock rt k (s # ss) =
     (case MOCK_OPTIONS_DATA s of
        None \<Rightarrow> analyzedContracts_mock rt k ss
      | Some d \<Rightarrow>
          map (\<lambda>(j, c). processOptionData_mock (dateParse rt) (nowAt rt j) c
                          (price d) (MarketData.symbol d))
            (enumerate k (options d))
          @ analyzedContracts_mock rt (k + length (options d)) ss)"

fun analyzedContracts_fetch :: "Runtime \<Rightarrow> nat \<Rightarrow> nat \<Rightarrow> string list \<Rightarrow> OptionData list" where
  "analyzedContracts_fetch rt k i [] = []"
| "analyzedContracts_fetch rt k i (s # ss) =
     (case fetchAt rt i s of
        None \<Rightarrow> analyzedContracts_fetch rt k (i + 1) ss
      | Some [] \<Rightarrow> analyzedContracts_fetch rt k (i + 1) ss
      | Some (d # ds) \<Rightarrow>
          map (\<lambda>(j, c). processOptionData_fetch (dateParse rt) (nowAt rt j) (randomAt rt j) c
                          (price d) (MarketData.symbol d))
            (enumerate k (options d))
          @ analyzedContracts_fetch rt (k + length (options d)) (i + 1) ss)"

section \<open>The polynomial of normalCDF\<close>

text \<open>
  On the unit interval the polynomial part of normalCDF lies between 0 and its value at 1,
  which is 0.999999999 and not 1.
\<close>

lemma quad_lower_lin:
  fixes t u :: real
  assumes "0 \<le> u - 1.369 * t + 0.46854025" "t \<le> 1"
  shows "0.9 \<le> 1.061405429 * u - 1.453152027 * t + 1.421413741"
  using assms by simp

lemma quad_lower:
  fixes t :: real
  assumes "t \<le> 1"
  shows "0.9 \<le> 1.061405429 * (t * t) - 1.453152027 * t + 1.421413741"
proof -
  have "0 \<le> (t - 0.6845)^2" by simp
  then have "0 \<le> t * t - 1.369 * t + 0.46854025"
    by (simp add: power2_eq_square algebra_simps)
  then show ?thesis using assms by (rule quad_lower_lin)
qed

lemma quartic_pos_lin:
  fixes t u v w :: real
  assumes "0 \<le> 1.061405429 * w - 1.453152027 * v + 0.521413741 * u"
    and "0 \<le> u - 0.316 * t + 0.024964" and "t \<le> 1"
  shows "0.2 \<le> 1.061405429 * w - 1.453152027 * v + 1.421413741 * u - 0.284496736 * t + 0.254829592"
  using assms by simp

lemma quartic_pos:
  fixes t :: real
  assumes "t \<le> 1"
  shows "0.2 \<le> 1.061405429 * (t * t * t * t) - 1.453152027 * (t * t * t) + 1.421413741 * (t * t) - 0.284496736 * t + 0.254829592"
proof -
  have "0 \<le> 1.061405429 * (t * t) - 1.453152027 * t + 1.421413741 - 0.9"
    using quad_lower [OF assms] by simp
  then have "0 \<le> (t * t) * (1.061405429 * (t * t) - 1.453152027 * t + 1.421413741 - 0.9)"
    by (rule mult_nonneg_nonneg [OF zero_le_square])
  then have a: "0 \<le> 1.061405429 * (t * t * t * t) - 1.453152027 * (t * t * t) + 0.521413741 * (t * t)"
    by (simp add: algebra_simps)
  have "0 \<le> (t - 0.158)^2" by simp
  then have b: "0 \<le> t * t - 0.316 * t + 0.024964"
    by (simp add: power2_eq_square algebra_simps)
  show ?thesis using a b assms by (rule quartic_pos_lin)
qed

lemma cdf_poly_nonneg:
  fixes t :: real
  assumes "0 \<le> t" "t \<le> 1"
  shows "0 \<le> (((((1.061405429 * t + (- 1.453152027)) * t) + 1.421413741) * t + (- 0.284496736)) * t + 0.254829592) * t"
proof -
  have "(((((1.061405429 * t + (- 1.453152027)) * t) + 1.421413741) * t + (- 0.284496736)) * t + 0.254829592)
      = 1.061405429 * (t * t * t * t) - 1.453152027 * (t * t * t) + 1.421413741 * (t * t) - 0.284496736 * t + 0.254829592"
    by (simp add: algebra_simps)
  moreover have "0 \<le> 1.061405429 * (t * t * t * t) - 1.453152027 * (t * t * t) + 1.421413741 * (t * t) - 0.284496736 * t + 0.254829592"
    using quartic_pos [OF assms(2)] by simp
  ultimately have "0 \<le> (((((1.061405429 * t + (- 1.453152027)) * t) + 1.421413741) * t + (- 0.284496736)) * t + 0.254829592)"
    by simp
  then show ?thesis using assms(1) by (rule mult_nonneg_nonneg)
qed

lemma cdf_poly_le_lin:
  fixes t u v w :: real
  assumes "0 \<le> t" "0 \<le> u" "v \<le> u" "0 \<le> w"
  shows "0 \<le> 0.999999999 + 0.745170407 * t + 1.029667143 * u - 0.391746598 * v + 1.061405429 * w"
  using assms by simp

lemma cdf_poly_le:
  fixes t :: real
  assumes "0 \<le> t" "t \<le> 1"
  shows "(((((1.061405429 * t + (- 1.453152027)) * t) + 1.421413741) * t + (- 0.284496736)) * t + 0.254829592) * t \<le> 0.999999999"
proof -
  have t2: "0 \<le> t * t" by simp
  have t3: "t * t * t \<le> t * t" using assms
    by (metis mult.right_neutral mult_left_mono t2)
  have t4: "0 \<le> t * t * t * t" using assms by simp
  have r: "0 \<le> 0.999999999 + 0.745170407 * t + 1.029667143 * (t * t) - 0.391746598 * (t * t * t) + 1.061405429 * (t * t * t * t)"
    using assms(1) t2 t3 t4 by (rule cdf_poly_le_lin)
  have "0 \<le> 1 - t" using assms by simp
  then have "0 \<le> (1 - t) * (0.999999999 + 0.745170407 * t + 1.029667143 * (t * t) - 0.391746598 * (t * t * t) + 1.061405429 * (t * t * t * t))"
    using r by (rule mult_nonneg_nonneg)
  moreover have "(1 - t) * (0.999999999 + 0.745170407 * t + 1.029667143 * (t * t) - 0.391746598 * (t * t * t) + 1.061405429 * (t * t * t * t))
      = 0.999999999 - (((((1.061405429 * t + (- 1.453152027)) * t) + 1.421413741) * t + (- 0.284496736)) * t + 0.254829592) * t"
    by (simp add: field_simps)
  ultimately show ?thesis by simp
qed

section \<open>normalCDF\<close>

text \<open>
  normalCDF takes its argument's sign and absolute value apart, so that
  \<open>normalCDF x + normalCDF (- x) = 1\<close> for every \<open>x\<close> other than 0; at 0 both
  calls take the positive branch and \<open>normalCDF 0 = 0.5000000005\<close>.
\<close>

lemma normalCDF_shape:
  "\<exists>y. 0 < y \<and> y \<le> 1 \<and> (x0 = 0 \<longrightarrow> y = 1 / 10 ^ 9)
     \<and> normalCDF x0 = 0.5 * (1 + (if x0 < 0 then - 1 else 1) * y)
     \<and> normalCDF (- x0) = 0.5 * (1 + (if 0 < x0 then - 1 else 1) * y)"
proof -
  define x where "x = \<bar>x0\<bar> / sqrt 2"
  define t where "t = 1 / (1 + 0.3275911 * x)"
  define q where "q = (((((1.061405429 * t + (- 1.453152027)) * t) + 1.421413741) * t + (- 0.284496736)) * t + 0.254829592) * t"
  define e where "e = exp (- x * x)"
  have x: "0 \<le> x" unfolding x_def by simp
  then have px: "0 \<le> 0.3275911 * x" by simp
  have t: "0 \<le> t" "t \<le> 1" unfolding t_def using px by simp_all
  have q0: "0 \<le> q" unfolding q_def using t by (rule cdf_poly_nonneg)
  have q1: "q \<le> 0.999999999" unfolding q_def using t by (rule cdf_poly_le)
  have "x * x \<ge> 0" using x by simp
  then have e: "0 < e" "e \<le> 1" unfolding e_def by simp_all
  have "q * e \<le> 0.999999999 * 1"
    using q1 e q0 by (intro mult_mono) simp_all
  then have y: "0 < 1 - q * e" by simp
  have "0 \<le> q * e" using q0 e by simp
  then have y1: "1 - q * e \<le> 1" by simp
  have N: "normalCDF x0 = 0.5 * (1 + (if x0 < 0 then - 1 else 1) * (1 - q * e))"
    unfolding normalCDF_def Let_def q_def e_def t_def x_def by simp
  have N': "normalCDF (- x0) = 0.5 * (1 + (if 0 < x0 then - 1 else 1) * (1 - q * e))"
    unfolding normalCDF_def Let_def q_def e_def t_def x_def by simp
  have z: "x0 = 0 \<longrightarrow> 1 - q * e = 1 / 10 ^ 9"
    unfolding q_def e_def t_def x_def by simp
  show ?thesis using y y1 N N' z by blast
qed

lemma normalCDF_range: "0 \<le> normalCDF x \<and> normalCDF x \<le> 1"
proof -
  obtain y where "0 < y" "y \<le> 1" "normalCDF x = 0.5 * (1 + (if x < 0 then - 1 else 1) * y)"
    using normalCDF_shape [of x] by blast
  then show ?thesis by (simp split: if_splits)
qed

lemma normalCDF_reflect: "x \<noteq> 0 \<Longrightarrow> normalCDF x + normalCDF (- x) = 1"
proof -
  assume nz: "x \<noteq> 0"
  obtain y where "normalCDF x = 0.5 * (1 + (if x < 0 then - 1 else 1) * y)"
    "normalCDF (- x) = 0.5 * (1 + (if 0 < x then - 1 else 1) * y)"
    using normalCDF_shape [of x] by blast
  then show ?thesis using nz by (simp split: if_splits)
qed

lemma normalCDF_zero: "normalCDF 0 = 0.5000000005"
proof -
  obtain y where "y = 1 / 10 ^ 9" "normalCDF 0 = 0.5 * (1 + (if (0::real) < 0 then - 1 else 1) * y)"
    using normalCDF_shape [of 0] by blast
  then show ?thesis by simp
qed

text \<open>Far in the tail, normalCDF is close to 1.\<close>

lemma normalCDF_tail:
  assumes "0 < x0"
  shows "1 - 1 / (2 + x0 * x0) \<le> normalCDF x0"
proof -
  define x where "x = \<bar>x0\<bar> / sqrt 2"
  define t where "t = 1 / (1 + 0.3275911 * x)"
  define q where "q = (((((1.061405429 * t + (- 1.453152027)) * t) + 1.421413741) * t + (- 0.284496736)) * t + 0.254829592) * t"
  define e where "e = exp (- x * x)"
  have x: "0 \<le> x" unfolding x_def by simp
  then have px: "0 \<le> 0.3275911 * x" by simp
  have t: "0 \<le> t" "t \<le> 1" unfolding t_def using px by simp_all
  have q0: "0 \<le> q" unfolding q_def using t by (rule cdf_poly_nonneg)
  have q1: "q \<le> 0.999999999" unfolding q_def using t by (rule cdf_poly_le)
  have xx: "x * x = x0 * x0 / 2"
    unfolding x_def by (simp add: field_simps)
  have "1 + x0 * x0 / 2 \<le> exp (x0 * x0 / 2)" by (rule exp_ge_add_one_self)
  moreover have "0 < 1 + x0 * x0 / 2" by (simp add: add_pos_nonneg)
  ultimately have "1 / exp (x0 * x0 / 2) \<le> 1 / (1 + x0 * x0 / 2)"
    by (intro divide_left_mono) simp_all
  then have e1: "e \<le> 1 / (1 + x0 * x0 / 2)"
    unfolding e_def by (simp add: xx exp_minus inverse_eq_divide)
  have e0: "0 \<le> e" unfolding e_def by simp
  have "q * e \<le> 1 * (1 / (1 + x0 * x0 / 2))"
    using q1 q0 e0 e1 by (intro mult_mono) simp_all
  then have qe: "q * e \<le> 2 / (2 + x0 * x0)" by (simp add: field_simps)
  have N: "normalCDF x0 = 0.5 * (1 + (1 - q * e))"
    unfolding normalCDF_def Let_def q_def e_def t_def x_def using assms by simp
  show ?thesis unfolding N using qe by (simp add: field_simps)
qed

section \<open>Expired options\<close>

text \<open>
  C3. For every \<open>S\<close>, \<open>K\<close>, \<open>r\<close>, \<open>sigma\<close> and every \<open>T \<le> 0\<close>, blackScholes returns the
  intrinsic values \<open>callPrice = max (S - K) 0\<close> and \<open>putPrice = max (K - S) 0\<close>, with
  \<open>d1 = d2 = 0\<close>, \<open>nd1 = nd2 = 1\<close> if \<open>S > K\<close> and \<open>0\<close> otherwise, \<open>nMinusD1\<close> and
  \<open>nMinusD2\<close> their complements, and calculateGreeks returns five zeros for both
  option kinds.
\<close>

theorem expired_intrinsic_value:
  assumes "T \<le> 0"
  shows "callPrice (blackScholes S K T r sigma) = max (S - K) 0
       \<and> putPrice (blackScholes S K T r sigma) = max (K - S) 0
       \<and> d1 (blackScholes S K T r sigma) = 0
       \<and> d2 (blackScholes S K T r sigma) = 0
       \<and> nd1 (blackScholes S K T r sigma) = (if S > K then 1 else 0)
       \<and> nd2 (blackScholes S K T r sigma) = (if S > K then 1 else 0)
       \<and> nMinusD1 (blackScholes S K T r sigma) = 1 - nd1 (blackScholes S K T r sigma)
       \<and> nMinusD2 (blackScholes S K T r sigma) = 1 - nd2 (blackScholes S K T r sigma)
       \<and> calculateGreeks S K T r sigma kind
           = \<lparr> delta = 0, gamma = 0, theta = 0, vega = 0, rho = 0 \<rparr>"
  using assms by (simp add: blackScholes_def calculateGreeks_def)

theorem expired_intrinsic_value_witness:
  "(- 1 :: real) \<le> 0
   \<and> callPrice (blackScholes 185.5 180 (- 1) 0.045 0.28) = 5.5
   \<and> putPrice (blackScholes 185.5 180 (- 1) 0.045 0.28) = 0
   \<and> nd1 (blackScholes 185.5 180 (- 1) 0.045 0.28) = 1
   \<and> nMinusD1 (blackScholes 185.5 180 (- 1) 0.045 0.28) = 0
   \<and> delta (calculateGreeks 185.5 180 (- 1) 0.045 0.28 put) = 0"
  using expired_intrinsic_value [of "- 1" "185.5" 180 "0.045" "0.28" put] by simp

section \<open>Put-call parity\<close>

lemma blackScholes_live:
  assumes "0 < T"
  shows "callPrice (blackScholes S K T r sigma)
           = S * normalCDF (d1 (blackScholes S K T r sigma))
             - K * exp (- r * T) * normalCDF (d2 (blackScholes S K T r sigma))"
    and "putPrice (blackScholes S K T r sigma)
           = K * exp (- r * T) * normalCDF (- d2 (blackScholes S K T r sigma))
             - S * normalCDF (- d1 (blackScholes S K T r sigma))"
  using assms by (simp_all add: blackScholes_def Let_def)

lemma normalCDF_excess:
  "normalCDF x + normalCDF (- x) - 1 = (if x = 0 then 1 / 10 ^ 9 else 0)"
  using normalCDF_reflect [of x] normalCDF_zero by simp

lemma parity_gap:
  assumes "0 < T"
  shows "putPrice (blackScholes S K T r sigma)
           - (callPrice (blackScholes S K T r sigma) - S + K * exp (- r * T))
         = K * exp (- r * T) * (if d2 (blackScholes S K T r sigma) = 0 then 1 / 10 ^ 9 else 0)
           - S * (if d1 (blackScholes S K T r sigma) = 0 then 1 / 10 ^ 9 else 0)"
proof -
  let ?b = "blackScholes S K T r sigma"
  have "putPrice ?b - (callPrice ?b - S + K * exp (- r * T))
      = K * exp (- r * T) * (normalCDF (d2 ?b) + normalCDF (- d2 ?b) - 1)
        - S * (normalCDF (d1 ?b) + normalCDF (- d1 ?b) - 1)"
    unfolding blackScholes_live [OF assms] by (simp add: algebra_simps)
  then show ?thesis unfolding normalCDF_excess .
qed

lemma gap_bound:
  fixes a S K :: real
  assumes "0 \<le> a" "a \<le> K" "0 \<le> S"
  shows "\<bar>a * (if p then 1 / 10 ^ 9 else 0) - S * (if q then 1 / 10 ^ 9 else 0)\<bar>
         \<le> max S K / 10 ^ 9"
  using assms by (cases p; cases q) (simp_all add: max_def abs_if)

text \<open>
  C4, as amended. For all \<open>S\<close>, \<open>K\<close>, \<open>r\<close>, \<open>sigma\<close>, \<open>T\<close> greater than 0, the put
  price and \<open>callPrice - S + K * exp (- r * T)\<close> differ by at most
  \<open>max S K / 10 ^ 9\<close>, hence by at most \<open>1 / 10 ^ 6\<close> when neither \<open>S\<close> nor \<open>K\<close>
  exceeds 1000, and they are equal when neither \<open>d1\<close> nor \<open>d2\<close> is 0.
\<close>

theorem put_call_parity_amended:
  assumes "0 < S" "0 < K" "0 < r" "0 < sigma" "0 < T"
  shows "\<bar>putPrice (blackScholes S K T r sigma)
           - (callPrice (blackScholes S K T r sigma) - S + K * exp (- r * T))\<bar>
         \<le> max S K / 10 ^ 9
       \<and> (d1 (blackScholes S K T r sigma) \<noteq> 0 \<and> d2 (blackScholes S K T r sigma) \<noteq> 0
            \<longrightarrow> putPrice (blackScholes S K T r sigma)
                 = callPrice (blackScholes S K T r sigma) - S + K * exp (- r * T))
       \<and> (S \<le> 1000 \<and> K \<le> 1000
            \<longrightarrow> \<bar>putPrice (blackScholes S K T r sigma)
                   - (callPrice (blackScholes S K T r sigma) - S + K * exp (- r * T))\<bar>
                 \<le> 1 / 10 ^ 6)"
proof -
  let ?b = "blackScholes S K T r sigma"
  let ?g = "putPrice ?b - (callPrice ?b - S + K * exp (- r * T))"
  have "- r * T \<le> 0" using assms by simp
  then have e: "0 < exp (- r * T)" "exp (- r * T) \<le> 1" by simp_all
  have ke: "0 \<le> K * exp (- r * T)" "K * exp (- r * T) \<le> K"
    using assms(2) e by simp_all
  have gap: "?g = K * exp (- r * T) * (if d2 ?b = 0 then 1 / 10 ^ 9 else 0)
                - S * (if d1 ?b = 0 then 1 / 10 ^ 9 else 0)"
    using assms(5) by (rule parity_gap)
  have b: "\<bar>?g\<bar> \<le> max S K / 10 ^ 9"
    unfolding gap using ke assms(1) by (intro gap_bound) simp_all
  have z: "d1 ?b \<noteq> 0 \<and> d2 ?b \<noteq> 0 \<longrightarrow> ?g = 0"
    unfolding gap by simp
  have s: "\<bar>?g\<bar> \<le> 1 / 10 ^ 6" if "S \<le> 1000 \<and> K \<le> 1000"
  proof -
    have "max S K \<le> 1000" using that by simp
    then have "max S K / 10 ^ 9 \<le> 1 / 10 ^ 6" by simp
    with b show ?thesis by (rule order_trans)
  qed
  show ?thesis using b z s by simp
qed

theorem put_call_parity_amended_witness:
  "(0::real) < 100 \<and> (0::real) < 0.045 \<and> (0::real) < 0.5 \<and> (0::real) < 1
   \<and> d1 (blackScholes 100 100 1 0.045 0.5) \<noteq> 0
   \<and> d2 (blackScholes 100 100 1 0.045 0.5) \<noteq> 0
   \<and> putPrice (blackScholes 100 100 1 0.045 0.5)
       = callPrice (blackScholes 100 100 1 0.045 0.5) - 100 + 100 * exp (- 0.045 * 1)
   \<and> (100::real) \<le> 1000
   \<and> \<bar>putPrice (blackScholes 100 100 1 0.045 0.5)
        - (callPrice (blackScholes 100 100 1 0.045 0.5) - 100 + 100 * exp (- 0.045 * 1))\<bar>
       \<le> 1 / 10 ^ 6"
proof -
  have d1: "d1 (blackScholes 100 100 1 0.045 0.5) = 0.34" by (simp add: blackScholes_def Let_def)
  have d2: "d2 (blackScholes 100 100 1 0.045 0.5) = - 0.16" by (simp add: blackScholes_def Let_def)
  show ?thesis
    using put_call_parity_amended [of 100 100 "0.045" "0.5" 1] unfolding d1 d2 by simp
qed

text \<open>
  Parity within \<open>1 / 10 ^ 6\<close> fails for a large strike with \<open>d2 = 0\<close>: with
  \<open>S = K = 10000\<close>, \<open>T = 1\<close>, \<open>r = 0.125\<close> and \<open>sigma = 0.5\<close> the two sides differ by
  \<open>10000 * exp (- 0.125) / 10 ^ 9\<close>, which is more than \<open>8 / 10 ^ 6\<close>.
\<close>

theorem put_call_parity_counterexample:
  "\<not> \<bar>putPrice (blackScholes 10000 10000 1 0.125 0.5)
        - (callPrice (blackScholes 10000 10000 1 0.125 0.5) - 10000 + 10000 * exp (- 0.125 * 1))\<bar>
      \<le> 1 / 10 ^ 6"
proof -
  let ?b = "blackScholes 10000 10000 1 0.125 0.5"
  have d1: "d1 ?b = 0.5" by (simp add: blackScholes_def Let_def)
  have d2: "d2 ?b = 0" by (simp add: blackScholes_def Let_def)
  have gap: "putPrice ?b - (callPrice ?b - 10000 + 10000 * exp (- 0.125 * 1))
           = 10000 * exp (- 0.125 * 1) * (1 / 10 ^ 9)"
    using parity_gap [of 1 10000 10000 "0.125" "0.5"] unfolding d1 d2 by simp
  have "1 + (- 0.125) \<le> exp (- 0.125 :: real)" by (rule exp_ge_add_one_self)
  then have "(0.875 :: real) \<le> exp (- 0.125 * 1)" by simp
  then have "(1 / 10 ^ 6 :: real) < 10000 * exp (- 0.125 * 1) * (1 / 10 ^ 9)" by simp
  then show ?thesis unfolding gap by simp
qed

section \<open>Ranges of the Greeks\<close>

text \<open>
  C5. For every valid input (\<open>S > 0\<close>, \<open>K > 0\<close>, \<open>sigma > 0\<close>, \<open>T > 0\<close>, any \<open>r\<close>),
  calculateGreeks returns a delta in \<open>[0, 1]\<close> for a call and in \<open>[- 1, 0]\<close> for a put,
  a gamma that is not negative and a vega that is not negative.
\<close>

theorem greeks_ranges:
  assumes "0 < S" "0 < K" "0 < sigma" "0 < T"
  shows "0 \<le> delta (calculateGreeks S K T r sigma call)
       \<and> delta (calculateGreeks S K T r sigma call) \<le> 1
       \<and> - 1 \<le> delta (calculateGreeks S K T r sigma put)
       \<and> delta (calculateGreeks S K T r sigma put) \<le> 0
       \<and> 0 \<le> gamma (calculateGreeks S K T r sigma kind)
       \<and> 0 \<le> vega (calculateGreeks S K T r sigma kind)"
proof -
  let ?d1 = "(ln (S / K) + (r + 0.5 * sigma * sigma) * T) / (sigma * sqrt T)"
  have dc: "delta (calculateGreeks S K T r sigma call) = normalCDF ?d1"
    using assms(4) by (simp add: calculateGreeks_def Let_def)
  have dp: "delta (calculateGreeks S K T r sigma put) = - normalCDF (- ?d1)"
    using assms(4) by (simp add: calculateGreeks_def Let_def)
  have g: "gamma (calculateGreeks S K T r sigma kind) = phi ?d1 / (S * sigma * sqrt T)"
    using assms(4) by (simp add: calculateGreeks_def Let_def)
  have v: "vega (calculateGreeks S K T r sigma kind) = S * phi ?d1 * sqrt T / 100"
    using assms(4) by (simp add: calculateGreeks_def Let_def)
  have p: "0 \<le> phi ?d1" by (simp add: phi_def)
  have "0 \<le> S * sigma * sqrt T" using assms by simp
  then have g0: "0 \<le> phi ?d1 / (S * sigma * sqrt T)" using p by simp
  have v0: "0 \<le> S * phi ?d1 * sqrt T / 100" using p assms by simp
  show ?thesis
    unfolding dc dp g v using normalCDF_range [of ?d1] normalCDF_range [of "- ?d1"] g0 v0
    by simp
qed

theorem greeks_ranges_witness:
  "(0::real) < 185.5 \<and> (0::real) < 180 \<and> (0::real) < 0.28 \<and> (0::real) < 0.25
   \<and> 0 \<le> delta (calculateGreeks 185.5 180 0.25 0.045 0.28 call)
   \<and> delta (calculateGreeks 185.5 180 0.25 0.045 0.28 call) \<le> 1
   \<and> - 1 \<le> delta (calculateGreeks 185.5 180 0.25 0.045 0.28 put)
   \<and> delta (calculateGreeks 185.5 180 0.25 0.045 0.28 put) \<le> 0
   \<and> 0 \<le> gamma (calculateGreeks 185.5 180 0.25 0.045 0.28 put)
   \<and> 0 \<le> vega (calculateGreeks 185.5 180 0.25 0.045 0.28 put)"
  using greeks_ranges [of "185.5" 180 "0.28" "0.25" "0.045" put] by simp

section \<open>Derived metrics of one contract\<close>

text \<open>
  C6, as amended. The fetch-based processOptionData emits
  \<open>maxProfit = lastPrice * 100\<close> for both option kinds; the mock-data
  processOptionData emits \<open>Infinity\<close> for a call and \<open>strike - lastPrice\<close> for a put.
\<close>

theorem maxProfit_by_version:
  "OptionData.maxProfit (processOptionData_fetch parse now rnd rawOption S tk)
     = Num (RawOptionData.lastPrice rawOption * 100)
   \<and> OptionData.maxProfit (processOptionData_mock parse now rawOption S sy)
     = (if RawOptionData.optionType rawOption = call then Infinity
        else Num (RawOptionData.strike rawOption - RawOptionData.lastPrice rawOption))"
  by (simp add: processOptionData_fetch_def processOptionData_mock_def Let_def)

text \<open>
  The first contract of the mock table, analysed by the mock-data version, has
  \<open>maxProfit = Infinity\<close> and not \<open>8.45 * 100\<close>.
\<close>

theorem maxProfit_counterexample:
  "OptionData.maxProfit
     (processOptionData_mock (\<lambda>s. 1755378000000) 1793664000000 AAPL240816C00180000 185.5 ''AAPL'')
   \<noteq> Num (RawOptionData.lastPrice AAPL240816C00180000 * 100)"
  by (simp add: processOptionData_mock_def Let_def AAPL240816C00180000_def)

text \<open>
  C7, as amended. The fetch-based processOptionData emits
  \<open>annualizedReturn = (maxProfit / collateralRequired) * (365 / daysToExpiration) * 100\<close>
  with \<open>maxProfit = lastPrice * 100\<close> and \<open>daysToExpiration = timeToExpiration * 365\<close>,
  and 0 when \<open>daysToExpiration \<le> 0\<close>; the mock-data processOptionData emits
  \<open>(edge / 100) * (365 / (timeToExpiration * 365))\<close>, and 0 when
  \<open>timeToExpiration \<le> 0\<close>.
\<close>

theorem annualizedReturn_by_version:
  "OptionData.annualizedReturn (processOptionData_fetch parse now rnd rawOption S tk)
     = (if OptionData.timeToExpiration (processOptionData_fetch parse now rnd rawOption S tk) * 365 > 0
        then (RawOptionData.lastPrice rawOption * 100
               / OptionData.collateralRequired (processOptionData_fetch parse now rnd rawOption S tk))
             * (365 / (OptionData.timeToExpiration (processOptionData_fetch parse now rnd rawOption S tk) * 365))
             * 100
        else 0)
   \<and> OptionData.maxProfit (processOptionData_fetch parse now rnd rawOption S tk)
     = Num (RawOptionData.lastPrice rawOption * 100)
   \<and> OptionData.annualizedReturn (processOptionData_mock parse now rawOption S sy)
     = (if OptionData.timeToExpiration (processOptionData_mock parse now rawOption S sy) \<le> 0 then 0
        else (OptionData.edge (processOptionData_mock parse now rawOption S sy) / 100)
             * (365 / (OptionData.timeToExpiration (processOptionData_mock parse now rawOption S sy) * 365)))"
  by (simp add: processOptionData_fetch_def processOptionData_mock_def Let_def
        calculateAnnualReturn_def)

text \<open>
  The put of the mock table, analysed by the mock-data version one second before its
  expiry. The time to expiration is \<open>1 / 31557600\<close> of a year and the theoretical price
  is at least 4 (it is close to the intrinsic value 4.5), so the edge is at most 56.25
  and the emitted annualizedReturn is at most \<open>0.5625 * 31557600\<close>; the emitted fields
  give \<open>(183.75 / 19000) * 31557600 * 100\<close>, which is more than \<open>0.96 * 31557600\<close>.
\<close>

lemma put_near_expiry:
  "4 \<le> putPrice (blackScholes 185.5 190 (1 / 31557600) RISK_FREE_RATE 0.30)"
proof -
  define T :: real where "T = 1 / 31557600"
  define s where "s = sqrt T"
  define n where "n = ln (185.5 / 190 :: real) + (0.045 + 0.5 * 0.30 * 0.30) * T"
  define a where "a = n / (0.30 * s)"
  define b where "b = a - 0.30 * s"
  have T0: "0 < T" unfolding T_def by simp
  have s0: "0 < s" unfolding s_def using T0 by simp
  have "T \<le> (1 / 5617)\<^sup>2" unfolding T_def by (simp add: power2_eq_square)
  then have s1: "s \<le> 1 / 5617" unfolding s_def by (intro real_le_lsqrt) simp_all
  have "ln (185.5 / 190 :: real) \<le> 185.5 / 190 - 1" by (rule ln_le_minus_one) simp
  then have n1: "n \<le> - (0.0236)" unfolding n_def T_def by simp
  have d: "0 < 0.30 * s" "0.30 * s \<le> 0.30 / 5617" using s0 s1 by simp_all
  have "- n / (0.30 * s) \<ge> 0.0236 / (0.30 / 5617)"
  proof -
    have "0.0236 / (0.30 / 5617) \<le> 0.0236 / (0.30 * s)"
      using d by (intro divide_left_mono) simp_all
    also have "\<dots> \<le> - n / (0.30 * s)"
      using n1 d by (intro divide_right_mono) simp_all
    finally show ?thesis .
  qed
  then have a1: "441 \<le> - a" unfolding a_def by simp
  then have b1: "441 \<le> - b" unfolding b_def using d by simp
  have b0: "0 < - b" using b1 by simp
  have "441 * 441 \<le> (- b) * (- b)" using b1 by (intro mult_mono) simp_all
  then have "1 / (2 + (- b) * (- b)) \<le> 1 / (2 + 441 * 441)"
    by (intro divide_left_mono) (simp_all add: add_pos_nonneg)
  then have Nb: "0.99999 \<le> normalCDF (- b)"
    using normalCDF_tail [OF b0] by simp
  have Na: "normalCDF (- a) \<le> 1" using normalCDF_range [of "- a"] by simp
  have "1 + (- (RISK_FREE_RATE * T)) \<le> exp (- (RISK_FREE_RATE * T))"
    by (rule exp_ge_add_one_self)
  then have E: "0.999999 \<le> exp (- RISK_FREE_RATE * T)"
    unfolding RISK_FREE_RATE_def T_def by simp
  have "0.999999 * 0.99999 \<le> exp (- RISK_FREE_RATE * T) * normalCDF (- b)"
    using E Nb by (intro mult_mono) simp_all
  then have P: "189.99 \<le> 190 * exp (- RISK_FREE_RATE * T) * normalCDF (- b)" by simp
  have put: "putPrice (blackScholes 185.5 190 T RISK_FREE_RATE 0.30)
           = 190 * exp (- RISK_FREE_RATE * T) * normalCDF (- b) - 185.5 * normalCDF (- a)"
    using T0 unfolding b_def a_def n_def s_def
    by (simp add: blackScholes_def Let_def RISK_FREE_RATE_def)
  have "4 \<le> putPrice (blackScholes 185.5 190 T RISK_FREE_RATE 0.30)"
    unfolding put using P Na by simp
  then show ?thesis unfolding T_def .
qed

theorem annualizedReturn_counterexample:
  "OptionData.timeToExpiration
     (processOptionData_mock (\<lambda>s. 1755378000000) 1755377999000
        AAPL240816P00190000 185.5 ''AAPL'') = 1 / 31557600
   \<and> OptionData.maxProfit
     (processOptionData_mock (\<lambda>s. 1755378000000) 1755377999000
        AAPL240816P00190000 185.5 ''AAPL'') = Num 183.75
   \<and> OptionData.collateralRequired
     (processOptionData_mock (\<lambda>s. 1755378000000) 1755377999000
        AAPL240816P00190000 185.5 ''AAPL'') = 19000
   \<and> OptionData.annualizedReturn
     (processOptionData_mock (\<lambda>s. 1755378000000) 1755377999000
        AAPL240816P00190000 185.5 ''AAPL'')
     \<noteq> (183.75 / 19000) * (365 / ((1 / 31557600) * 365)) * 100"
proof -
  let ?out = "processOptionData_mock (\<lambda>s. 1755378000000) 1755377999000
        AAPL240816P00190000 185.5 ''AAPL''"
  define th where "th = putPrice (blackScholes 185.5 190 (1 / 31557600) RISK_FREE_RATE 0.30)"
  have th4: "4 \<le> th" unfolding th_def by (rule put_near_expiry)
  have T: "calculateTimeToExpiration (\<lambda>s. 1755378000000) 1755377999000 ''2025-08-16''
           = 1 / 31557600"
    by (simp add: calculateTimeToExpiration_def Let_def)
  have t: "OptionData.timeToExpiration ?out = 1 / 31557600"
    by (simp add: processOptionData_mock_def Let_def AAPL240816P00190000_def T)
  have m: "OptionData.maxProfit ?out = Num 183.75"
    by (simp add: processOptionData_mock_def Let_def AAPL240816P00190000_def)
  have c: "OptionData.collateralRequired ?out = 19000"
    by (simp add: processOptionData_mock_def Let_def AAPL240816P00190000_def)
  have a: "OptionData.annualizedReturn ?out = (calculateEdge 6.25 th / 100) * 31557600"
    unfolding th_def
    by (simp add: processOptionData_mock_def Let_def AAPL240816P00190000_def T
          calculateAnnualReturn_def)
  have ce: "calculateEdge 6.25 th = ((6.25 - th) / th) * 100"
    using th4 by (simp add: calculateEdge_def)
  have "(6.25 - th) / th \<le> 0.5625" using th4 by (simp add: pos_divide_le_eq)
  then have "((6.25 - th) / th) * 100 \<le> 0.5625 * 100" by (rule mult_right_mono) simp
  then have e: "calculateEdge 6.25 th \<le> 56.25" unfolding ce by simp
  have "(calculateEdge 6.25 th / 100) * 31557600 \<le> (56.25 / 100) * 31557600"
    using e by simp
  then have "OptionData.annualizedReturn ?out < (183.75 / 19000) * (365 / ((1 / 31557600) * 365)) * 100"
    unfolding a by simp
  with t m c show ?thesis by simp
qed

text \<open>
  The two versions classify a contract by different rules: the fetch-based one by the
  option kind alone, the mock-data one by getStrategyType, which also looks at the sign
  of the moneyness.
\<close>

lemma strategyType_rules:
  "OptionData.strategyType (processOptionData_fetch parse now rnd rawOption S tk)
     = (if RawOptionData.optionType rawOption = call then covered_call else cash_secured_put)
   \<and> OptionData.strategyType (processOptionData_mock parse now rawOption S sy)
     = (if RawOptionData.optionType rawOption = call
           \<and> ((RawOptionData.strike rawOption - S) / S) * 100 < 0 then covered_call
        else if RawOptionData.optionType rawOption = put
           \<and> ((RawOptionData.strike rawOption - S) / S) * 100 > 0 then cash_secured_put
        else speculative)"
  by (simp add: processOptionData_fetch_def processOptionData_mock_def Let_def
        getStrategyType_def calculateMoneyness_def)

text \<open>
  On the four contracts of the mock table the rule of the mock-data version gives what the
  kind alone gives; on a contract outside the table, such as a call struck at 190 on a
  stock at 185.5, it gives \<open>speculative\<close>.
\<close>

lemma mock_table_strategyTypes:
  "OptionData.strategyType (processOptionData_mock parse now AAPL240816C00180000 185.50 sy)
     = covered_call"
  "OptionData.strategyType (processOptionData_mock parse now AAPL240816P00190000 185.50 sy)
     = cash_secured_put"
  "OptionData.strategyType (processOptionData_mock parse now MSFT240816C00410000 415.20 sy)
     = covered_call"
  "OptionData.strategyType (processOptionData_mock parse now NVDA240816C00115000 118.75 sy)
     = covered_call"
  by (simp_all add: processOptionData_mock_def Let_def getStrategyType_def
        calculateMoneyness_def AAPL240816C00180000_def AAPL240816P00190000_def
        MSFT240816C00410000_def NVDA240816C00115000_def)

lemma strategyType_outside_table:
  "OptionData.optionType
     (processOptionData_mock (\<lambda>s. 1755378000000) 1793664000000
        (AAPL240816C00180000\<lparr>RawOptionData.strike := 190\<rparr>) 185.5 ''AAPL'') = call
   \<and> OptionData.strategyType
     (processOptionData_mock (\<lambda>s. 1755378000000) 1793664000000
        (AAPL240816C00180000\<lparr>RawOptionData.strike := 190\<rparr>) 185.5 ''AAPL'') \<noteq> covered_call"
  by (simp add: processOptionData_mock_def Let_def AAPL240816C00180000_def
        getStrategyType_def calculateMoneyness_def)

section \<open>Analysing a contract twice\<close>

text \<open>
  C9, as amended. Two analyses of the same contract by the fetch-based processOptionData
  with the same spot price, rate and clock reading agree in every field other than
  \<open>dataAge\<close>, which is five times the random number (in \<open>[0, 1)\<close>) drawn by each
  call.
\<close>

theorem rerun_differs_in_dataAge_only:
  assumes "0 \<le> ra" "ra < 1" "0 \<le> rb" "rb < 1"
  shows "(processOptionData_fetch parse now ra rawOption S tk)\<lparr>OptionData.dataAge := a\<rparr>
       = (processOptionData_fetch parse now rb rawOption S tk)\<lparr>OptionData.dataAge := a\<rparr>
       \<and> OptionData.dataAge (processOptionData_fetch parse now ra rawOption S tk) = ra * 5
       \<and> OptionData.dataAge (processOptionData_fetch parse now rb rawOption S tk) = rb * 5"
  using assms by (simp add: processOptionData_fetch_def Let_def)

theorem rerun_differs_in_dataAge_only_witness:
  "(0::real) \<le> 0 \<and> (0::real) < 1 \<and> (0::real) \<le> 0.5 \<and> (0.5::real) < 1
   \<and> (processOptionData_fetch (\<lambda>s. 1755378000000) 1793664000000 0 AAPL240816C00180000 185.5 ''AAPL'')
        \<lparr>OptionData.dataAge := 0\<rparr>
     = (processOptionData_fetch (\<lambda>s. 1755378000000) 1793664000000 0.5 AAPL240816C00180000 185.5 ''AAPL'')
        \<lparr>OptionData.dataAge := 0\<rparr>
   \<and> OptionData.dataAge (processOptionData_fetch (\<lambda>s. 1755378000000) 1793664000000 0.5 AAPL240816C00180000 185.5 ''AAPL'') = 2.5"
  using rerun_differs_in_dataAge_only
          [where ra = 0 and rb = "0.5" and parse = "\<lambda>s. 1755378000000" and now = 1793664000000
             and rawOption = AAPL240816C00180000 and S = "185.5" and tk = "''AAPL''" and a = 0]
  by simp

text \<open>
  Two analyses of the same contract at the same instant, the first drawing 0 and the
  second 0.5, are different records.
\<close>

theorem rerun_counterexample:
  "processOptionData_fetch (\<lambda>s. 1755378000000) 1793664000000 0 AAPL240816C00180000 185.5 ''AAPL''
   \<noteq> processOptionData_fetch (\<lambda>s. 1755378000000) 1793664000000 0.5 AAPL240816C00180000 185.5 ''AAPL''"
proof
  assume "processOptionData_fetch (\<lambda>s. 1755378000000) 1793664000000 0 AAPL240816C00180000 185.5 ''AAPL''
   = processOptionData_fetch (\<lambda>s. 1755378000000) 1793664000000 0.5 AAPL240816C00180000 185.5 ''AAPL''"
  then have "OptionData.dataAge (processOptionData_fetch (\<lambda>s. 1755378000000) 1793664000000 0 AAPL240816C00180000 185.5 ''AAPL'')
   = OptionData.dataAge (processOptionData_fetch (\<lambda>s. 1755378000000) 1793664000000 0.5 AAPL240816C00180000 185.5 ''AAPL'')"
    by simp
  then show False by (simp add: processOptionData_fetch_def Let_def)
qed

section \<open>The calls of onProgress\<close>

lemma step_fetch_listener:
  "listener (searchStep_fetch rt opts symbols i st)
     = callOnProgress opts i (length symbols) (symbols ! i) (listener st)"
  by (simp add: searchStep_fetch_def Let_def split: option.splits)

lemma loop_fetch_listener:
  assumes "onProgress opts = Some recordCall"
  shows "listener (searchLoop_fetch rt opts symbols i st)
     = listener st @ map (\<lambda>j. (j, length symbols, symbols ! j)) [i..<length symbols]"
  using assms
proof (induction rt opts symbols i st rule: searchLoop_fetch.induct)
  case (1 rt opts symbols i st)
  show ?case
  proof (cases "i < length symbols")
    case True
    have "listener (searchLoop_fetch rt opts symbols i st)
        = listener (searchLoop_fetch rt opts symbols (i + 1) (searchStep_fetch rt opts symbols i st))"
      using True by (subst searchLoop_fetch.simps) simp
    also have "\<dots> = listener (searchStep_fetch rt opts symbols i st)
                  @ map (\<lambda>j. (j, length symbols, symbols ! j)) [i + 1..<length symbols]"
      using "1.IH" [OF True "1.prems"] .
    also have "\<dots> = listener st @ map (\<lambda>j. (j, length symbols, symbols ! j)) [i..<length symbols]"
      using True "1.prems"
      by (simp add: step_fetch_listener callOnProgress_def recordCall_def upt_conv_Cons)
    finally show ?thesis .
  next
    case False
    then show ?thesis by (subst searchLoop_fetch.simps) simp
  qed
qed

lemma getProperty_not_inherited:
  "s \<notin> set Object_prototype_keys \<Longrightarrow> getProperty MOCK_OPTIONS_DATA s \<noteq> Inherited"
  by (simp add: getProperty_def split: option.splits)

lemma step_mock_listener:
  "listener (snd (searchStep_mock rt opts symbols i st))
     = callOnProgress opts i (length symbols) (symbols ! i) (listener st)"
  by (simp add: searchStep_mock_def Let_def split: property.splits)

lemma step_mock_no_error:
  "symbols ! i \<notin> set Object_prototype_keys \<Longrightarrow> fst (searchStep_mock rt opts symbols i st) = None"
  using getProperty_not_inherited [of "symbols ! i"]
  by (simp add: searchStep_mock_def Let_def split: property.splits)

lemma loop_mock_listener:
  assumes "onProgress opts = Some recordCall"
    and "set symbols \<inter> set Object_prototype_keys = {}"
  shows "fst (searchLoop_mock rt opts symbols i st) = None
     \<and> listener (snd (searchLoop_mock rt opts symbols i st))
       = listener st @ map (\<lambda>j. (j, length symbols, symbols ! j)) [i..<length symbols]"
  using assms
proof (induction rt opts symbols i st rule: searchLoop_mock.induct)
  case (1 rt opts symbols i st)
  show ?case
  proof (cases "i < length symbols")
    case True
    obtain st' where step: "searchStep_mock rt opts symbols i st = (None, st')"
      using step_mock_no_error [of symbols i rt opts st] True "1.prems"(2)
      by (metis disjoint_iff nth_mem prod.collapse)
    have st': "listener st' = listener st @ [(i, length symbols, symbols ! i)]"
      using step_mock_listener [of rt opts symbols i st] step "1.prems"(1)
      by (simp add: callOnProgress_def recordCall_def)
    have unfold: "searchLoop_mock rt opts symbols i st = searchLoop_mock rt opts symbols (i + 1) st'"
      using True step by (subst searchLoop_mock.simps) simp
    have IH: "fst (searchLoop_mock rt opts symbols (i + 1) st') = None
       \<and> listener (snd (searchLoop_mock rt opts symbols (i + 1) st'))
         = listener st' @ map (\<lambda>j. (j, length symbols, symbols ! j)) [i + 1..<length symbols]"
      using "1.IH" [OF True step [symmetric] refl "1.prems"] .
    show ?thesis unfolding unfold using IH st' True by (simp add: upt_conv_Cons)
  next
    case False
    then show ?thesis by (subst searchLoop_mock.simps, subst searchLoop_mock.simps) simp
  qed
qed

text \<open>
  C2, as amended. For every input list of \<open>N\<close> symbols and a recording callback, the
  fetch-based searchOptionsData calls onProgress exactly \<open>N + 1\<close> times: call \<open>i < N\<close>
  is \<open>onProgress(i, N, symbols[i])\<close> and the last is \<open>onProgress(N, N, 'Complete')\<close>. The
  mock-data searchOptionsData makes the same calls, with the empty string as the last
  label, when no symbol is a key inherited from \<open>Object.prototype\<close>.
\<close>

theorem progress_calls:
  "snd (searchOptionsData_fetch rt symbols (opts\<lparr>onProgress := Some recordCall\<rparr>) [])
     = map (\<lambda>i. (i, length symbols, symbols ! i)) [0..<length symbols]
       @ [(length symbols, length symbols, ''Complete'')]
   \<and> (set symbols \<inter> set Object_prototype_keys = {} \<longrightarrow>
        snd (searchOptionsData_mock rt symbols (opts\<lparr>onProgress := Some recordCall\<rparr>) [])
          = map (\<lambda>i. (i, length symbols, symbols ! i)) [0..<length symbols]
            @ [(length symbols, length symbols, '''')])"
proof -
  let ?o = "opts\<lparr>onProgress := Some recordCall\<rparr>"
  let ?st = "\<lparr>allOpportunities = [], analyzed = 0, listener = []\<rparr>
              :: (nat \<times> nat \<times> string) list SearchState"
  have o: "onProgress ?o = Some recordCall" by simp
  have "listener (searchLoop_fetch rt ?o symbols 0 ?st)
          = map (\<lambda>i. (i, length symbols, symbols ! i)) [0..<length symbols]"
    using loop_fetch_listener [OF o, of rt symbols 0 ?st] by simp
  then have f: "snd (searchOptionsData_fetch rt symbols ?o [])
     = map (\<lambda>i. (i, length symbols, symbols ! i)) [0..<length symbols]
       @ [(length symbols, length symbols, ''Complete'')]"
    by (simp add: searchOptionsData_fetch_def Let_def callOnProgress_def recordCall_def)
  have m: "snd (searchOptionsData_mock rt symbols ?o [])
          = map (\<lambda>i. (i, length symbols, symbols ! i)) [0..<length symbols]
            @ [(length symbols, length symbols, '''')]"
    if d: "set symbols \<inter> set Object_prototype_keys = {}"
  proof -
    obtain st' where l: "searchLoop_mock rt ?o symbols 0 ?st = (None, st')"
      and st': "listener st' = map (\<lambda>i. (i, length symbols, symbols ! i)) [0..<length symbols]"
      using loop_mock_listener [OF o d, of rt 0 ?st]
      by (cases "searchLoop_mock rt ?o symbols 0 ?st") simp
    show ?thesis
      by (simp add: searchOptionsData_mock_def l st' callOnProgress_def recordCall_def)
  qed
  show ?thesis using f m by blast
qed

theorem progress_calls_witness:
  "set [''AAPL'', ''ZZZZ'', ''MSFT''] \<inter> set Object_prototype_keys = {}
   \<and> snd (searchOptionsData_mock sampleRuntime [''AAPL'', ''ZZZZ'', ''MSFT'']
            (sampleOptions\<lparr>onProgress := Some recordCall\<rparr>) [])
     = [(0, 3, ''AAPL''), (1, 3, ''ZZZZ''), (2, 3, ''MSFT''), (3, 3, '''')]
   \<and> snd (searchOptionsData_fetch sampleRuntime [''AAPL'', ''ZZZZ'', ''MSFT'']
            (sampleOptions\<lparr>onProgress := Some recordCall\<rparr>) [])
     = [(0, 3, ''AAPL''), (1, 3, ''ZZZZ''), (2, 3, ''MSFT''), (3, 3, ''Complete'')]"
proof -
  have d: "set [''AAPL'', ''ZZZZ'', ''MSFT''] \<inter> set Object_prototype_keys = {}"
    by (simp add: Object_prototype_keys_def)
  have u: "[0..<3] = [0, 1, 2]" by (simp add: upt_rec)
  show ?thesis
    using progress_calls [of sampleRuntime "[''AAPL'', ''ZZZZ'', ''MSFT'']" sampleOptions] d
    by (simp add: u)
qed

text \<open>
  On the empty list the fetch-based version makes the single call
  \<open>onProgress(0, 0, 'Complete')\<close>, whose label is not empty.
\<close>

theorem progress_calls_counterexample:
  "snd (searchOptionsData_fetch sampleRuntime [] sampleOptions []) \<noteq> [(0, 0, '''')]"
  by (simp add: searchOptionsData_fetch_def searchLoop_fetch.simps callOnProgress_def
        sampleOptions_def recordCall_def)

section \<open>Invariants of the search loops\<close>

text \<open>
  A property of every analysis a search can make holds of every record it accumulates.
  The mock-data version only analyses the contracts of its table.
\<close>

lemma step_fetch_invariant:
  assumes "\<forall>k c S t. P (processOptionData_fetch (dateParse rt) (nowAt rt k) (randomAt rt k) c S t)"
    and "\<forall>a \<in> set (allOpportunities st). P a"
  shows "\<forall>a \<in> set (allOpportunities (searchStep_fetch rt opts symbols i st)). P a"
  using assms
  by (auto simp: searchStep_fetch_def Let_def split: option.splits)

lemma loop_fetch_invariant:
  assumes "\<forall>k c S t. P (processOptionData_fetch (dateParse rt) (nowAt rt k) (randomAt rt k) c S t)"
    and "\<forall>a \<in> set (allOpportunities st). P a"
  shows "\<forall>a \<in> set (allOpportunities (searchLoop_fetch rt opts symbols i st)). P a"
  using assms
proof (induction rt opts symbols i st rule: searchLoop_fetch.induct)
  case (1 rt opts symbols i st)
  show ?case
  proof (cases "i < length symbols")
    case True
    have "searchLoop_fetch rt opts symbols i st
        = searchLoop_fetch rt opts symbols (i + 1) (searchStep_fetch rt opts symbols i st)"
      using True by (subst searchLoop_fetch.simps) simp
    then show ?thesis
      using "1.IH" [OF True "1.prems"(1) step_fetch_invariant [OF "1.prems"]] by simp
  next
    case False
    then show ?thesis using "1.prems"(2) by (subst searchLoop_fetch.simps) simp
  qed
qed

lemma step_mock_invariant:
  assumes "\<forall>k s d c. MOCK_OPTIONS_DATA s = Some d \<and> c \<in> set (options d)
             \<longrightarrow> P (processOptionData_mock (dateParse rt) (nowAt rt k) c
                      (price d) (MarketData.symbol d))"
    and "\<forall>a \<in> set (allOpportunities st). P a"
  shows "\<forall>a \<in> set (allOpportunities (snd (searchStep_mock rt opts symbols i st))). P a"
proof -
  have "P (processOptionData_mock (dateParse rt) (nowAt rt k) c (price d) (MarketData.symbol d))"
    if "MOCK_OPTIONS_DATA (symbols ! i) = Some d" "(k, c) \<in> set (enumerate n (options d))"
    for d k c n
  proof -
    have "c \<in> set (options d)" using that(2) by (auto simp: in_set_enumerate_eq)
    then show ?thesis using assms(1) that(1) by blast
  qed
  then show ?thesis
    using assms(2)
    by (auto simp: searchStep_mock_def Let_def getProperty_def
             split: option.splits property.splits if_splits)
qed

lemma loop_mock_invariant:
  assumes "\<forall>k s d c. MOCK_OPTIONS_DATA s = Some d \<and> c \<in> set (options d)
             \<longrightarrow> P (processOptionData_mock (dateParse rt) (nowAt rt k) c
                      (price d) (MarketData.symbol d))"
    and "\<forall>a \<in> set (allOpportunities st). P a"
  shows "\<forall>a \<in> set (allOpportunities (snd (searchLoop_mock rt opts symbols i st))). P a"
  using assms
proof (induction rt opts symbols i st rule: searchLoop_mock.induct)
  case (1 rt opts symbols i st)
  show ?case
  proof (cases "i < length symbols")
    case True
    obtain e st' where step: "searchStep_mock rt opts symbols i st = (e, st')"
      by (cases "searchStep_mock rt opts symbols i st")
    have inv: "\<forall>a \<in> set (allOpportunities st'). P a"
      using step_mock_invariant [OF "1.prems", of opts symbols i] step by simp
    show ?thesis
    proof (cases e)
      case None
      have "searchLoop_mock rt opts symbols i st = searchLoop_mock rt opts symbols (i + 1) st'"
        using True step None by (subst searchLoop_mock.simps) simp
      then show ?thesis
        using "1.IH" [OF True step [symmetric, unfolded None] refl "1.prems"(1) inv] by simp
    next
      case (Some err)
      have "searchLoop_mock rt opts symbols i st = (Some err, st')"
        using True step Some by (subst searchLoop_mock.simps) simp
      then show ?thesis using inv by simp
    qed
  next
    case False
    then show ?thesis using "1.prems"(2) by (subst searchLoop_mock.simps) simp
  qed
qed

lemma search_fetch_invariant:
  assumes "\<forall>k c S t. P (processOptionData_fetch (dateParse rt) (nowAt rt k) (randomAt rt k) c S t)"
  shows "\<forall>a \<in> set (fst (searchOptionsData_fetch rt symbols opts w)). P a"
proof -
  have "\<forall>a \<in> set (allOpportunities (searchLoop_fetch rt opts symbols 0
           \<lparr>allOpportunities = [], analyzed = 0, listener = w\<rparr>)). P a"
    by (rule loop_fetch_invariant [OF assms]) simp
  then show ?thesis by (simp add: searchOptionsData_fetch_def Let_def)
qed

lemma search_mock_invariant:
  assumes "\<forall>k s d c. MOCK_OPTIONS_DATA s = Some d \<and> c \<in> set (options d)
             \<longrightarrow> P (processOptionData_mock (dateParse rt) (nowAt rt k) c
                      (price d) (MarketData.symbol d))"
    and "fst (searchOptionsData_mock rt symbols opts w) = Inr res"
  shows "\<forall>a \<in> set res. P a"
proof -
  let ?st = "\<lparr>allOpportunities = [], analyzed = 0, listener = w\<rparr>"
  have "\<forall>a \<in> set (allOpportunities (snd (searchLoop_mock rt opts symbols 0 ?st))). P a"
    by (rule loop_mock_invariant [OF assms(1)]) simp
  then show ?thesis
    using assms(2)
    by (cases "searchLoop_mock rt opts symbols 0 ?st")
       (auto simp: searchOptionsData_mock_def split: option.splits)
qed

lemma analyzed_fetch_invariant:
  assumes "\<forall>k c S t. P (processOptionData_fetch (dateParse rt) (nowAt rt k) (randomAt rt k) c S t)"
  shows "\<forall>a \<in> set (analyzedContracts_fetch rt k i ss). P a"
  using assms
  by (induction ss arbitrary: k i) (auto split: option.splits list.splits)

lemma analyzed_mock_invariant:
  assumes "\<forall>k s d c. MOCK_OPTIONS_DATA s = Some d \<and> c \<in> set (options d)
             \<longrightarrow> P (processOptionData_mock (dateParse rt) (nowAt rt k) c
                      (price d) (MarketData.symbol d))"
  shows "\<forall>a \<in> set (analyzedContracts_mock rt k ss). P a"
proof (induction ss arbitrary: k)
  case Nil
  show ?case by simp
next
  case (Cons s ss)
  have "P (processOptionData_mock (dateParse rt) (nowAt rt j) c (price d) (MarketData.symbol d))"
    if "MOCK_OPTIONS_DATA s = Some d" "(j, c) \<in> set (enumerate n (options d))"
    for d j c n
  proof -
    have "c \<in> set (options d)" using that(2) by (auto simp: in_set_enumerate_eq)
    then show ?thesis using assms that(1) by blast
  qed
  then show ?case using Cons.IH by (auto split: option.splits)
qed

section \<open>A sample run\<close>

text \<open>
  In the sample environment both versions, asked for AAPL, return the call (edge
  \<open>590 / 11\<close>) before the put (edge \<open>350 / 9\<close>).
\<close>

lemma sample_expired:
  "calculateTimeToExpiration (\<lambda>s. 1755378000000) 1793664000000 e = 0"
  by (simp add: calculateTimeToExpiration_def Let_def)

lemma sample_fetch_fields:
  "OptionData.edge (processOptionData_fetch (\<lambda>s. 1755378000000) 1793664000000 r
      AAPL240816C00180000 (371 / 2) t) = 590 / 11"
  "OptionData.volume (processOptionData_fetch (\<lambda>s. 1755378000000) 1793664000000 r
      AAPL240816C00180000 (371 / 2) t) = 1250"
  "OptionData.lastPrice (processOptionData_fetch (\<lambda>s. 1755378000000) 1793664000000 r
      AAPL240816C00180000 (371 / 2) t) = 8.45"
  "OptionData.edge (processOptionData_fetch (\<lambda>s. 1755378000000) 1793664000000 r
      AAPL240816P00190000 (371 / 2) t) = 350 / 9"
  "OptionData.volume (processOptionData_fetch (\<lambda>s. 1755378000000) 1793664000000 r
      AAPL240816P00190000 (371 / 2) t) = 890"
  "OptionData.lastPrice (processOptionData_fetch (\<lambda>s. 1755378000000) 1793664000000 r
      AAPL240816P00190000 (371 / 2) t) = 6.25"
  by (simp_all add: processOptionData_fetch_def Let_def sample_expired blackScholes_def
        calculateEdge_def AAPL240816C00180000_def AAPL240816P00190000_def)

lemma sample_mock_fields:
  "OptionData.edge (processOptionData_mock (\<lambda>s. 1755378000000) 1793664000000
      AAPL240816C00180000 (371 / 2) t) = 590 / 11"
  "OptionData.volume (processOptionData_mock (\<lambda>s. 1755378000000) 1793664000000
      AAPL240816C00180000 (371 / 2) t) = 1250"
  "OptionData.lastPrice (processOptionData_mock (\<lambda>s. 1755378000000) 1793664000000
      AAPL240816C00180000 (371 / 2) t) = 8.45"
  "OptionData.edge (processOptionData_mock (\<lambda>s. 1755378000000) 1793664000000
      AAPL240816P00190000 (371 / 2) t) = 350 / 9"
  "OptionData.volume (processOptionData_mock (\<lambda>s. 1755378000000) 1793664000000
      AAPL240816P00190000 (371 / 2) t) = 890"
  "OptionData.lastPrice (processOptionData_mock (\<lambda>s. 1755378000000) 1793664000000
      AAPL240816P00190000 (371 / 2) t) = 6.25"
  by (simp_all add: processOptionData_mock_def Let_def sample_expired blackScholes_def
        calculateEdge_def AAPL240816C00180000_def AAPL240816P00190000_def)

lemma sample_fetch_run:
  "fst (searchOptionsData_fetch sampleRuntime [''AAPL''] sampleOptions [])
     = [processOptionData_fetch (\<lambda>s. 1755378000000) 1793664000000 0.5
          AAPL240816C00180000 185.5 ''AAPL'',
        processOptionData_fetch (\<lambda>s. 1755378000000) 1793664000000 0.5
          AAPL240816P00190000 185.5 ''AAPL'']"
  by (simp add: searchOptionsData_fetch_def searchLoop_fetch.simps searchStep_fetch_def Let_def
        sampleRuntime_def sampleOptions_def MOCK_OPTIONS_DATA_def
        sample_fetch_fields)

lemma sample_mock_run:
  "fst (searchOptionsData_mock sampleRuntime [''AAPL''] sampleOptions [])
     = Inr [processOptionData_mock (\<lambda>s. 1755378000000) 1793664000000
              AAPL240816C00180000 185.5 ''AAPL'',
            processOptionData_mock (\<lambda>s. 1755378000000) 1793664000000
              AAPL240816P00190000 185.5 ''AAPL'']"
  by (simp add: searchOptionsData_mock_def searchLoop_mock.simps searchStep_mock_def Let_def
        getProperty_def sampleRuntime_def sampleOptions_def MOCK_OPTIONS_DATA_def
        sample_mock_fields)

lemma sample_optionTypes:
  "OptionData.optionType (processOptionData_fetch p n r AAPL240816C00180000 S t) = call"
  "OptionData.optionType (processOptionData_fetch p n r AAPL240816P00190000 S t) = put"
  "OptionData.optionType (processOptionData_mock p n AAPL240816C00180000 S t) = call"
  "OptionData.optionType (processOptionData_mock p n AAPL240816P00190000 S t) = put"
  by (simp_all add: processOptionData_fetch_def processOptionData_mock_def Let_def
        AAPL240816C00180000_def AAPL240816P00190000_def)

lemma sample_analyzed:
  "analyzedContracts_mock sampleRuntime 0 [''AAPL'']
     = [processOptionData_mock (\<lambda>s. 1755378000000) 1793664000000
          AAPL240816C00180000 185.5 ''AAPL'',
        processOptionData_mock (\<lambda>s. 1755378000000) 1793664000000
          AAPL240816P00190000 185.5 ''AAPL'']"
  by (simp add: MOCK_OPTIONS_DATA_def sampleRuntime_def)

section \<open>The stale-data warning\<close>

lemma fetch_not_stale:
  "rnd < 1 \<Longrightarrow> \<not> OptionData.hasStaleDataWarning (processOptionData_fetch p n rnd c S t)"
  by (simp add: processOptionData_fetch_def Let_def)

lemma mock_not_stale:
  "\<not> OptionData.hasStaleDataWarning (processOptionData_mock p n c S t)"
  by (simp add: processOptionData_mock_def Let_def)

text \<open>
  C10. Every record that either searchOptionsData returns has
  \<open>hasStaleDataWarning = false\<close>, the random numbers being drawn from \<open>[0, 1)\<close>: the
  mock-data version sets the flag to false, and the fetch-based version sets it to
  \<open>dataAge > 15\<close> with \<open>dataAge\<close> five times a random number.
\<close>

theorem stale_warning_never_set:
  assumes "\<forall>k. 0 \<le> randomAt rt k \<and> randomAt rt k < 1"
  shows "(\<forall>a \<in> set (fst (searchOptionsData_fetch rt symbols opts w)).
            \<not> OptionData.hasStaleDataWarning a)
       \<and> (\<forall>res. fst (searchOptionsData_mock rt symbols opts w) = Inr res
              \<longrightarrow> (\<forall>a \<in> set res. \<not> OptionData.hasStaleDataWarning a))"
proof -
  have f: "\<forall>a \<in> set (fst (searchOptionsData_fetch rt symbols opts w)).
            \<not> OptionData.hasStaleDataWarning a"
    by (rule search_fetch_invariant) (simp add: assms fetch_not_stale)
  have m: "\<forall>a \<in> set res. \<not> OptionData.hasStaleDataWarning a"
    if "fst (searchOptionsData_mock rt symbols opts w) = Inr res" for res
    by (rule search_mock_invariant [OF _ that]) (simp add: mock_not_stale)
  show ?thesis using f m by blast
qed

theorem stale_warning_never_set_witness:
  "(\<forall>k. 0 \<le> randomAt sampleRuntime k \<and> randomAt sampleRuntime k < 1)
   \<and> length (fst (searchOptionsData_fetch sampleRuntime [''AAPL''] sampleOptions [])) = 2
   \<and> \<not> OptionData.hasStaleDataWarning
         (fst (searchOptionsData_fetch sampleRuntime [''AAPL''] sampleOptions []) ! 0)
   \<and> \<not> OptionData.hasStaleDataWarning
         (fst (searchOptionsData_fetch sampleRuntime [''AAPL''] sampleOptions []) ! 1)
   \<and> fst (searchOptionsData_mock sampleRuntime [''AAPL''] sampleOptions [])
       = Inr [processOptionData_mock (\<lambda>s. 1755378000000) 1793664000000
                AAPL240816C00180000 185.5 ''AAPL'',
              processOptionData_mock (\<lambda>s. 1755378000000) 1793664000000
                AAPL240816P00190000 185.5 ''AAPL'']
   \<and> \<not> OptionData.hasStaleDataWarning
         (processOptionData_mock (\<lambda>s. 1755378000000) 1793664000000
            AAPL240816C00180000 185.5 ''AAPL'')
   \<and> \<not> OptionData.hasStaleDataWarning
         (processOptionData_mock (\<lambda>s. 1755378000000) 1793664000000
            AAPL240816P00190000 185.5 ''AAPL'')"
proof -
  have r: "\<forall>k. 0 \<le> randomAt sampleRuntime k \<and> randomAt sampleRuntime k < 1"
    by (simp add: sampleRuntime_def)
  have n: "length (fst (searchOptionsData_fetch sampleRuntime [''AAPL''] sampleOptions [])) = 2"
    by (simp add: sample_fetch_run)
  show ?thesis
    using stale_warning_never_set [OF r, of "[''AAPL'']" sampleOptions "[]"] r n
    by (simp add: sample_mock_run)
qed

section \<open>Strategy classification in a search\<close>

lemma mock_table_rows:
  assumes "MOCK_OPTIONS_DATA s = Some d" "c \<in> set (options d)"
  shows "(c = AAPL240816C00180000 \<and> price d = 185.50)
       \<or> (c = AAPL240816P00190000 \<and> price d = 185.50)
       \<or> (c = MSFT240816C00410000 \<and> price d = 415.20)
       \<or> (c = NVDA240816C00115000 \<and> price d = 118.75)"
  using assms by (auto simp: MOCK_OPTIONS_DATA_def split: if_splits)

lemma fetch_strategyType:
  "OptionData.strategyType (processOptionData_fetch parse now rnd c S t)
     = (if OptionData.optionType (processOptionData_fetch parse now rnd c S t) = call
        then covered_call else cash_secured_put)"
  by (simp add: processOptionData_fetch_def Let_def)

lemma mock_optionType:
  "OptionData.optionType (processOptionData_mock parse now c S sy) = RawOptionData.optionType c"
  by (simp add: processOptionData_mock_def Let_def)

lemma mock_strategyType:
  assumes "MOCK_OPTIONS_DATA s = Some d" "c \<in> set (options d)"
  shows "OptionData.strategyType (processOptionData_mock parse now c (price d) sy)
     = (if OptionData.optionType (processOptionData_mock parse now c (price d) sy) = call
        then covered_call else cash_secured_put)"
proof -
  consider (a) "c = AAPL240816C00180000" "price d = 185.50"
    | (b) "c = AAPL240816P00190000" "price d = 185.50"
    | (c) "c = MSFT240816C00410000" "price d = 415.20"
    | (d) "c = NVDA240816C00115000" "price d = 118.75"
    using mock_table_rows [OF assms] by blast
  then show ?thesis
  proof cases
    case a
    show ?thesis unfolding a mock_optionType
      using mock_table_strategyTypes(1) [of parse now sy]
      by (simp add: AAPL240816C00180000_def)
  next
    case b
    show ?thesis unfolding b mock_optionType
      using mock_table_strategyTypes(2) [of parse now sy]
      by (simp add: AAPL240816P00190000_def)
  next
    case c
    show ?thesis unfolding c mock_optionType
      using mock_table_strategyTypes(3) [of parse now sy]
      by (simp add: MSFT240816C00410000_def)
  next
    case d
    show ?thesis unfolding d mock_optionType
      using mock_table_strategyTypes(4) [of parse now sy]
      by (simp add: NVDA240816C00115000_def)
  qed
qed

text \<open>
  C8. For every contract analysed by the batch pipeline, the emitted strategyType is
  \<open>covered-call\<close> when the option kind is call and \<open>cash-secured-put\<close> when it is put,
  regardless of moneyness: the fetch-based processOptionData classifies any contract by
  its kind, and so is classified every contract that either search analyses and every
  record that either searchOptionsData returns.
\<close>

theorem strategyType_by_kind:
  "OptionData.strategyType (processOptionData_fetch parse now rnd c S t)
     = (if RawOptionData.optionType c = call then covered_call else cash_secured_put)
   \<and> (\<forall>a \<in> set (analyzedContracts_fetch rt 0 0 symbols) \<union> set (analyzedContracts_mock rt 0 symbols).
        OptionData.strategyType a
          = (if OptionData.optionType a = call then covered_call else cash_secured_put))
   \<and> (\<forall>a \<in> set (fst (searchOptionsData_fetch rt symbols opts w)).
        OptionData.strategyType a
          = (if OptionData.optionType a = call then covered_call else cash_secured_put))
   \<and> (\<forall>res. fst (searchOptionsData_mock rt symbols opts w) = Inr res \<longrightarrow>
        (\<forall>a \<in> set res.
           OptionData.strategyType a
             = (if OptionData.optionType a = call then covered_call else cash_secured_put)))"
proof -
  have f: "\<forall>a \<in> set (fst (searchOptionsData_fetch rt symbols opts w)).
      OptionData.strategyType a
        = (if OptionData.optionType a = call then covered_call else cash_secured_put)"
    by (rule search_fetch_invariant) (simp add: fetch_strategyType)
  have m: "\<forall>a \<in> set res.
           OptionData.strategyType a
             = (if OptionData.optionType a = call then covered_call else cash_secured_put)"
    if "fst (searchOptionsData_mock rt symbols opts w) = Inr res" for res
    by (rule search_mock_invariant [OF _ that]) (auto simp: mock_strategyType)
  have p: "OptionData.strategyType (processOptionData_fetch parse now rnd c S t)
     = (if RawOptionData.optionType c = call then covered_call else cash_secured_put)"
    by (simp add: processOptionData_fetch_def Let_def)
  have af: "\<forall>a \<in> set (analyzedContracts_fetch rt 0 0 symbols).
      OptionData.strategyType a
        = (if OptionData.optionType a = call then covered_call else cash_secured_put)"
    by (rule analyzed_fetch_invariant) (simp add: fetch_strategyType)
  have am: "\<forall>a \<in> set (analyzedContracts_mock rt 0 symbols).
      OptionData.strategyType a
        = (if OptionData.optionType a = call then covered_call else cash_secured_put)"
    by (rule analyzed_mock_invariant) (auto simp: mock_strategyType)
  show ?thesis using p f m af am by blast
qed

theorem strategyType_by_kind_witness:
  "length (fst (searchOptionsData_fetch sampleRuntime [''AAPL''] sampleOptions [])) = 2
   \<and> OptionData.strategyType
         (fst (searchOptionsData_fetch sampleRuntime [''AAPL''] sampleOptions []) ! 0)
       = covered_call
   \<and> OptionData.strategyType
         (fst (searchOptionsData_fetch sampleRuntime [''AAPL''] sampleOptions []) ! 1)
       = cash_secured_put
   \<and> fst (searchOptionsData_mock sampleRuntime [''AAPL''] sampleOptions [])
       = Inr [processOptionData_mock (\<lambda>s. 1755378000000) 1793664000000
                AAPL240816C00180000 185.5 ''AAPL'',
              processOptionData_mock (\<lambda>s. 1755378000000) 1793664000000
                AAPL240816P00190000 185.5 ''AAPL'']
   \<and> analyzedContracts_mock sampleRuntime 0 [''AAPL'']
       = [processOptionData_mock (\<lambda>s. 1755378000000) 1793664000000
            AAPL240816C00180000 185.5 ''AAPL'',
          processOptionData_mock (\<lambda>s. 1755378000000) 1793664000000
            AAPL240816P00190000 185.5 ''AAPL'']
   \<and> OptionData.strategyType
         (processOptionData_mock (\<lambda>s. 1755378000000) 1793664000000
            AAPL240816C00180000 185.5 ''AAPL'') = covered_call
   \<and> OptionData.strategyType
         (processOptionData_mock (\<lambda>s. 1755378000000) 1793664000000
            AAPL240816P00190000 185.5 ''AAPL'') = cash_secured_put"
  using strategyType_by_kind [of "\<lambda>s. 0" 0 0 AAPL240816C00180000 0 "[]" sampleRuntime
          "[''AAPL'']" sampleOptions "[]"]
  by (simp add: sample_fetch_run sample_mock_run sample_analyzed sample_optionTypes
        del: analyzedContracts_mock.simps)

section \<open>The result of a search\<close>

lemma step_fetch_state:
  "allOpportunities (searchStep_fetch rt opts symbols i st)
     = allOpportunities st
       @ filter (\<lambda>a. OptionData.edge a \<ge> minEdge opts \<and> OptionData.volume a \<ge> minVolume opts
                     \<and> OptionData.lastPrice a \<ge> minPrice opts)
           (case fetchAt rt i (symbols ! i) of
              None \<Rightarrow> []
            | Some [] \<Rightarrow> []
            | Some (d # ds) \<Rightarrow>
                map (\<lambda>(j, c). processOptionData_fetch (dateParse rt) (nowAt rt j) (randomAt rt j) c
                                (price d) (MarketData.symbol d))
                  (enumerate (analyzed st) (options d)))"
  "analyzed (searchStep_fetch rt opts symbols i st)
     = analyzed st
       + (case fetchAt rt i (symbols ! i) of
            None \<Rightarrow> 0 | Some [] \<Rightarrow> 0 | Some (d # ds) \<Rightarrow> length (options d))"
  by (simp_all add: searchStep_fetch_def Let_def split: option.splits list.splits)

lemma loop_fetch_all:
  "allOpportunities (searchLoop_fetch rt opts symbols i st)
     = allOpportunities st
       @ filter (\<lambda>a. OptionData.edge a \<ge> minEdge opts \<and> OptionData.volume a \<ge> minVolume opts
                     \<and> OptionData.lastPrice a \<ge> minPrice opts)
           (analyzedContracts_fetch rt (analyzed st) i (drop i symbols))"
proof (induction rt opts symbols i st rule: searchLoop_fetch.induct)
  case (1 rt opts symbols i st)
  show ?case
  proof (cases "i < length symbols")
    case True
    have u: "searchLoop_fetch rt opts symbols i st
        = searchLoop_fetch rt opts symbols (i + 1) (searchStep_fetch rt opts symbols i st)"
      using True by (subst searchLoop_fetch.simps) simp
    have d: "drop i symbols = symbols ! i # drop (i + 1) symbols"
      using True by (simp add: Cons_nth_drop_Suc)
    show ?thesis
      unfolding u "1.IH" [OF True] d
      by (simp add: step_fetch_state split: option.splits list.splits)
  next
    case False
    then show ?thesis by (subst searchLoop_fetch.simps) simp
  qed
qed

lemma step_mock_state:
  assumes "symbols ! i \<notin> set Object_prototype_keys"
  shows "fst (searchStep_mock rt opts symbols i st) = None"
    and "allOpportunities (snd (searchStep_mock rt opts symbols i st))
     = allOpportunities st
       @ filter (\<lambda>a. OptionData.edge a \<ge> minEdge opts \<and> OptionData.volume a \<ge> minVolume opts
                     \<and> OptionData.lastPrice a \<ge> minPrice opts)
           (case MOCK_OPTIONS_DATA (symbols ! i) of
              None \<Rightarrow> []
            | Some d \<Rightarrow>
                map (\<lambda>(j, c). processOptionData_mock (dateParse rt) (nowAt rt j) c
                                (price d) (MarketData.symbol d))
                  (enumerate (analyzed st) (options d)))"
    and "analyzed (snd (searchStep_mock rt opts symbols i st))
     = analyzed st
       + (case MOCK_OPTIONS_DATA (symbols ! i) of None \<Rightarrow> 0 | Some d \<Rightarrow> length (options d))"
  using assms
  by (simp_all add: searchStep_mock_def Let_def getProperty_def split: option.splits)

lemma loop_mock_all:
  assumes "set symbols \<inter> set Object_prototype_keys = {}"
  shows "fst (searchLoop_mock rt opts symbols i st) = None
     \<and> allOpportunities (snd (searchLoop_mock rt opts symbols i st))
       = allOpportunities st
         @ filter (\<lambda>a. OptionData.edge a \<ge> minEdge opts \<and> OptionData.volume a \<ge> minVolume opts
                       \<and> OptionData.lastPrice a \<ge> minPrice opts)
             (analyzedContracts_mock rt (analyzed st) (drop i symbols))"
  using assms
proof (induction rt opts symbols i st rule: searchLoop_mock.induct)
  case (1 rt opts symbols i st)
  show ?case
  proof (cases "i < length symbols")
    case True
    have k: "symbols ! i \<notin> set Object_prototype_keys"
      using True "1.prems" by (meson disjoint_iff nth_mem)
    obtain st' where step: "searchStep_mock rt opts symbols i st = (None, st')"
      using step_mock_state(1) [OF k, of rt opts st]
      by (cases "searchStep_mock rt opts symbols i st") simp
    have u: "searchLoop_mock rt opts symbols i st = searchLoop_mock rt opts symbols (i + 1) st'"
      using True step by (subst searchLoop_mock.simps) simp
    have d: "drop i symbols = symbols ! i # drop (i + 1) symbols"
      using True by (simp add: Cons_nth_drop_Suc)
    have s: "st' = snd (searchStep_mock rt opts symbols i st)" using step by simp
    show ?thesis
      unfolding u d using "1.IH" [OF True step [symmetric] refl "1.prems"]
      by (simp add: s step_mock_state(2,3) [OF k] split: option.splits)
  next
    case False
    then show ?thesis by (subst searchLoop_mock.simps, subst searchLoop_mock.simps) simp
  qed
qed

lemma sorted_desc_sort_key:
  "sorted_wrt (\<lambda>a b. OptionData.edge a \<ge> OptionData.edge b)
     (sort_key (\<lambda>a. - OptionData.edge a) xs)"
proof -
  have "sorted (map (\<lambda>a. - OptionData.edge a) (sort_key (\<lambda>a. - OptionData.edge a) xs))"
    by (rule sorted_sort_key)
  then show ?thesis by (simp add: sorted_map)
qed

text \<open>
  What a search returns: the fetch-based version returns the analysed contracts of the
  resolved symbols that pass the three inclusive bounds, sorted by descending edge; so
  does the mock-data version when no symbol is a key inherited from \<open>Object.prototype\<close>.
\<close>

theorem search_filters_and_sorts:
  "mset (fst (searchOptionsData_fetch rt symbols opts w))
     = mset (filter (\<lambda>a. OptionData.edge a \<ge> minEdge opts \<and> OptionData.volume a \<ge> minVolume opts
                         \<and> OptionData.lastPrice a \<ge> minPrice opts)
               (analyzedContracts_fetch rt 0 0 symbols))
   \<and> sorted_wrt (\<lambda>a b. OptionData.edge a \<ge> OptionData.edge b)
        (fst (searchOptionsData_fetch rt symbols opts w))
   \<and> (set symbols \<inter> set Object_prototype_keys = {} \<longrightarrow>
        (\<exists>res. fst (searchOptionsData_mock rt symbols opts w) = Inr res
           \<and> mset res
               = mset (filter (\<lambda>a. OptionData.edge a \<ge> minEdge opts
                                   \<and> OptionData.volume a \<ge> minVolume opts
                                   \<and> OptionData.lastPrice a \<ge> minPrice opts)
                         (analyzedContracts_mock rt 0 symbols))
           \<and> sorted_wrt (\<lambda>a b. OptionData.edge a \<ge> OptionData.edge b) res))"
proof -
  let ?st = "\<lparr>allOpportunities = [], analyzed = 0, listener = w\<rparr>"
  have f: "fst (searchOptionsData_fetch rt symbols opts w)
         = sort_key (\<lambda>a. - OptionData.edge a)
             (filter (\<lambda>a. OptionData.edge a \<ge> minEdge opts \<and> OptionData.volume a \<ge> minVolume opts
                         \<and> OptionData.lastPrice a \<ge> minPrice opts)
               (analyzedContracts_fetch rt 0 0 symbols))"
    using loop_fetch_all [of rt opts symbols 0 ?st]
    by (simp add: searchOptionsData_fetch_def Let_def)
  have m: "fst (searchOptionsData_mock rt symbols opts w)
         = Inr (sort_key (\<lambda>a. - OptionData.edge a)
             (filter (\<lambda>a. OptionData.edge a \<ge> minEdge opts \<and> OptionData.volume a \<ge> minVolume opts
                         \<and> OptionData.lastPrice a \<ge> minPrice opts)
               (analyzedContracts_mock rt 0 symbols)))"
    if d: "set symbols \<inter> set Object_prototype_keys = {}"
    using loop_mock_all [OF d, of rt opts 0 ?st]
    by (cases "searchLoop_mock rt opts symbols 0 ?st") (simp add: searchOptionsData_mock_def)
  show ?thesis
    unfolding f using m by (auto simp: sorted_desc_sort_key)
qed

text \<open>
  C1. For every list of symbols and every filter configuration, searchOptionsData returns
  the analysed contracts of the resolved symbols that satisfy \<open>edge \<ge> minEdge\<close>,
  \<open>volume \<ge> minVolume\<close> and \<open>lastPrice \<ge> minPrice\<close>, sorted by descending edge. The
  mock-data version does not return on the list \<open>['constructor']\<close>: the lookup in the
  table finds the inherited \<open>Object\<close> function instead of skipping the unknown symbol,
  and the search ends with a TypeError after one call of onProgress.
\<close>

theorem search_inherited_key_throws:
  "fst (searchOptionsData_mock sampleRuntime [''constructor''] sampleOptions []) = Inl TypeError
   \<and> snd (searchOptionsData_mock sampleRuntime [''constructor''] sampleOptions [])
       = [(0, 1, ''constructor'')]"
  by (simp add: searchOptionsData_mock_def searchLoop_mock.simps searchStep_mock_def Let_def
        getProperty_def Object_prototype_keys_def MOCK_OPTIONS_DATA_def sampleOptions_def
        callOnProgress_def recordCall_def)

end
